theory Spec2Isabelle
  imports Complex_Main "HOL-Library.Multiset"
begin

section \<open>Machine integers\<close>

text \<open>
  The C++ fixed-width integers are modelled as \<open>int\<close> and \<open>nat\<close> with the wrap-around
  written out. \<open>wrap32\<close> is the value an \<open>int32_t\<close> (and \<open>int\<close>) holds after an
  arithmetic result is stored (two's complement), \<open>u32\<close> and \<open>u8\<close> the same for
  \<open>uint32_t\<close> and \<open>uint8_t\<close>.
\<close>

definition wrap32 :: "int \<Rightarrow> int" where
  "wrap32 x = (x + 2147483648) mod 4294967296 - 2147483648"

definition u32 :: "nat \<Rightarrow> nat" where
  "u32 n = n mod 4294967296"

definition u8 :: "nat \<Rightarrow> nat" where
  "u8 n = n mod 256"

text \<open>Conversion of an \<open>int\<close> to \<open>uint32_t\<close>.\<close>

definition int_to_u32 :: "int \<Rightarrow> nat" where
  "int_to_u32 x = nat (x mod 4294967296)"

section \<open>Core types (types.hpp)\<close>

datatype CardRank =
  Ace | Two | Three | Four | Five | Six | Seven | Eight | Nine | Ten | Jack | Queen | King

text \<open>
  \<open>CardSuit\<close> has the fixed underlying type \<open>uint8_t\<close>, so a cast can produce a value
  that is none of the four enumerators; \<open>SuitValue n\<close> stands for such a value \<open>n\<close>.
\<close>

datatype CardSuit = Hearts | Diamonds | Clubs | Spades | SuitValue nat

text \<open>\<open>static_cast<int>(rank)\<close>: the enumeration starts at \<open>Ace = 1\<close>.\<close>

fun rank_int :: "CardRank \<Rightarrow> int" where
  "rank_int Ace = 1"
| "rank_int Two = 2"
| "rank_int Three = 3"
| "rank_int Four = 4"
| "rank_int Five = 5"
| "rank_int Six = 6"
| "rank_int Seven = 7"
| "rank_int Eight = 8"
| "rank_int Nine = 9"
| "rank_int Ten = 10"
| "rank_int Jack = 11"
| "rank_int Queen = 12"
| "rank_int King = 13"

fun suit_int :: "CardSuit \<Rightarrow> int" where
  "suit_int Hearts = 0"
| "suit_int Diamonds = 1"
| "suit_int Clubs = 2"
| "suit_int Spades = 3"
| "suit_int (SuitValue n) = int n"

text \<open>
  \<open>static_cast<CardRank>((card_id % 13) + 1)\<close> and \<open>static_cast<CardSuit>(card_id / 13)\<close>,
  as the callers write them for a \<open>uint8_t\<close> identity.
\<close>

definition rank_of_id :: "nat \<Rightarrow> CardRank" where
  "rank_of_id n =
     [Ace, Two, Three, Four, Five, Six, Seven, Eight, Nine, Ten, Jack, Queen, King] ! (n mod 13)"

definition suit_of_id :: "nat \<Rightarrow> CardSuit" where
  "suit_of_id n =
     (if n div 13 = 0 then Hearts
      else if n div 13 = 1 then Diamonds
      else if n div 13 = 2 then Clubs
      else if n div 13 = 3 then Spades
      else SuitValue (n div 13))"

record Card =
  rank :: CardRank
  suit :: CardSuit
  confidence :: nat

text \<open>\<open>Card::getValue\<close>.\<close>

definition getValue :: "Card \<Rightarrow> int" where
  "getValue c =
     (if rank c = Ace then 11
      else if rank_int (rank c) \<ge> 10 then 10
      else rank_int (rank c))"

text \<open>
  A detection, reduced to the fields the counting and game-state code reads: the card
  identity (a \<open>uint8_t\<close>) and the detector's confidence in percent.
\<close>

record Detection =
  card_id :: nat
  det_confidence :: nat

section \<open>Count engine (card_counter.cpp)\<close>

text \<open>
  The running count is an \<open>int32_t\<close>, \<open>m_cardsPlayed\<close> a \<open>uint32_t\<close>, \<open>m_cardsSeen\<close> an
  array of 52 \<open>uint8_t\<close>. The derived floating-point fields (true count, confidence) are
  recomputed from these after every card and are not read back by \<open>addCard\<close>; they are
  left out.
\<close>

record CardCounter =
  m_runningCount :: int
  m_cardsPlayed :: nat
  m_deckCount :: nat
  m_cardsSeen :: "nat list"

definition CardCounter_reset :: "CardCounter \<Rightarrow> CardCounter" where
  "CardCounter_reset c = c\<lparr>m_runningCount := 0, m_cardsPlayed := 0, m_cardsSeen := replicate 52 0\<rparr>"

definition CardCounter_initialize :: "nat \<Rightarrow> CardCounter \<Rightarrow> CardCounter" where
  "CardCounter_initialize deckCount c = CardCounter_reset (c\<lparr>m_deckCount := deckCount\<rparr>)"

definition getHiLoValue :: "CardRank \<Rightarrow> int" where
  "getHiLoValue r =
     (let rankValue = rank_int r in
      if rankValue \<ge> 2 \<and> rankValue \<le> 6 then 1
      else if rankValue \<ge> 10 \<or> r = Ace then -1
      else 0)"

definition addCard :: "CardCounter \<Rightarrow> Card \<Rightarrow> CardCounter" where
  "addCard c crd =
     (let cardValue = getHiLoValue (rank crd);
          c1 = c\<lparr>m_runningCount := wrap32 (m_runningCount c + cardValue),
                 m_cardsPlayed := u32 (m_cardsPlayed c + 1)\<rparr>;
          cardIndex = u8 (nat (rank_int (rank crd) + suit_int (suit crd) * 13))
      in if cardIndex < 52
         then c1\<lparr>m_cardsSeen := (m_cardsSeen c1)[cardIndex := u8 (m_cardsSeen c1 ! cardIndex + 1)]\<rparr>
         else c1)"

text \<open>Feeding a sequence of confirmed cards, one \<open>addCard\<close> call each.\<close>

definition addCards :: "CardCounter \<Rightarrow> Card list \<Rightarrow> CardCounter" where
  "addCards c cards = foldl addCard c cards"

definition getRunningCount :: "CardCounter \<Rightarrow> int" where
  "getRunningCount c = m_runningCount c"

section \<open>Hand state machine (game_state_tracker.hpp, game_state_tracker.cpp)\<close>

text \<open>\<open>total\<close> is a \<open>uint32_t\<close>, \<open>hand_index\<close> an \<open>int\<close>.\<close>

record PlayerHand =
  cards :: "Card list"
  hand_total :: nat
  is_soft :: bool
  is_pair :: bool
  can_double :: bool
  can_split :: bool
  is_blackjack :: bool
  is_busted :: bool
  is_completed :: bool
  hand_index :: int

text \<open>\<open>PlayerHand{}\<close>, the member initialisers of the struct.\<close>

definition PlayerHand_default :: PlayerHand where
  "PlayerHand_default =
     \<lparr>cards = [], hand_total = 0, is_soft = False, is_pair = False, can_double = True,
      can_split = False, is_blackjack = False, is_busted = False, is_completed = False,
      hand_index = 0\<rparr>"

datatype GamePhase = WaitingForCards | PlayerTurn | DealerTurn | HandComplete | NewShoe

text \<open>Time points of the steady clock are tick counts (nanoseconds).\<close>

record GameStateTracker =
  m_phase :: GamePhase
  m_playerHands :: "PlayerHand list"
  m_currentHandIndex :: int
  m_dealerUpcard :: "Card option"
  m_detectedCardIds :: "nat list"
  m_lastUpdate :: int
  m_lastDecision :: int
  m_cardStability :: "(nat \<times> int) list"
  m_decisionMade :: bool

definition startNewHand :: "GameStateTracker \<Rightarrow> GameStateTracker" where
  "startNewHand g =
     g\<lparr>m_playerHands := [PlayerHand_default],
       m_currentHandIndex := 0,
       m_dealerUpcard := None,
       m_detectedCardIds := [],
       m_cardStability := [],
       m_phase := WaitingForCards,
       m_decisionMade := False\<rparr>"

text \<open>The constructor reads the clock once and starts a hand.\<close>

definition GameStateTracker_ctor :: "int \<Rightarrow> GameStateTracker" where
  "GameStateTracker_ctor now =
     startNewHand
       \<lparr>m_phase = WaitingForCards, m_playerHands = [], m_currentHandIndex = 0,
        m_dealerUpcard = None, m_detectedCardIds = [], m_lastUpdate = now,
        m_lastDecision = now, m_cardStability = [], m_decisionMade = False\<rparr>"

text \<open>
  \<open>resetForNewShoe\<close> is two statements after the log line: the call of \<open>startNewHand\<close>,
  then the assignment of the phase. \<open>resetForNewShoe_steps\<close> lists the tracker after each
  of them, \<open>resetForNewShoe\<close> is the tracker the call leaves.
\<close>

definition resetForNewShoe_steps :: "GameStateTracker \<Rightarrow> GameStateTracker list" where
  "resetForNewShoe_steps g = [startNewHand g, (startNewHand g)\<lparr>m_phase := NewShoe\<rparr>]"

definition resetForNewShoe :: "GameStateTracker \<Rightarrow> GameStateTracker" where
  "resetForNewShoe g = (startNewHand g)\<lparr>m_phase := NewShoe\<rparr>"

definition manualCountReset :: "GameStateTracker \<Rightarrow> GameStateTracker" where
  "manualCountReset g = resetForNewShoe g"

text \<open>
  \<open>calculateHandTotal\<close>. The first loop adds the card values into the \<open>int\<close> locals
  \<open>total\<close> and \<open>aces\<close>; \<open>sum_step\<close> is its body.
\<close>

definition sum_step :: "int \<times> int \<Rightarrow> Card \<Rightarrow> int \<times> int" where
  "sum_step acc crd =
     (let val = getValue crd;
          aces = (if rank crd = Ace then wrap32 (snd acc + 1) else snd acc)
      in (wrap32 (fst acc + val), aces))"

text \<open>The second loop: \<open>while (total > 21 && aces > 0) { total -= 10; aces--; }\<close>.\<close>

function soften :: "int \<Rightarrow> int \<Rightarrow> int \<times> int" where
  "soften t a = (if t > 21 \<and> a > 0 then soften (wrap32 (t - 10)) (wrap32 (a - 1)) else (t, a))"
  by pat_completeness auto
termination
proof (relation "measure (\<lambda>(t, a). nat a)")
  show "wf (measure (\<lambda>(t, a). nat a))" by simp
next
  fix t a :: int
  assume h: "21 < t \<and> 0 < a"
  have "(a - 1 + 2147483648) mod 4294967296 \<le> a - 1 + 2147483648"
    using h by (intro zmod_le_nonneg_dividend) simp
  then have "wrap32 (a - 1) < a"
    by (simp add: wrap32_def)
  then show "((wrap32 (t - 10), wrap32 (a - 1)), t, a) \<in> measure (\<lambda>(t, a). nat a)"
    using h by simp
qed

declare soften.simps [simp del]

definition calculateHandTotal :: "PlayerHand \<Rightarrow> PlayerHand" where
  "calculateHandTotal hand =
     (if cards hand = [] then hand
      else
        (let summed = foldl sum_step (0, 0) (cards hand);
             adjusted = soften (fst summed) (snd summed);
             t = fst adjusted;
             aces = snd adjusted
         in hand\<lparr>is_soft := (aces > 0),
                 hand_total := int_to_u32 t,
                 is_busted := (t > 21),
                 is_blackjack := (length (cards hand) = 2 \<and> t = 21),
                 can_double := (length (cards hand) = 2)\<rparr>))"

section \<open>Strategy engine (basic_strategy.hpp, basic_strategy.cpp)\<close>

datatype Action = Hit | Stand | Double | Split | Surrender

text \<open>
  \<open>buildStrategyTables\<close> first sets every entry to \<open>Hit\<close> and then assigns the chart,
  block by block. The blocks below are in the order of the source; no entry is assigned
  by two blocks. The three tables are held as functions of row and column.
\<close>

definition hardTotals_chart :: "nat \<Rightarrow> nat \<Rightarrow> Action" where
  "hardTotals_chart t dealer =
     (if 17 \<le> t \<and> t \<le> 21 \<and> 2 \<le> dealer \<and> dealer \<le> 11 then Stand
      else if 13 \<le> t \<and> t \<le> 16 \<and> 2 \<le> dealer \<and> dealer \<le> 6 then Stand
      else if 13 \<le> t \<and> t \<le> 16 \<and> 7 \<le> dealer \<and> dealer \<le> 11 then Hit
      else if t = 12 \<and> (dealer = 4 \<or> dealer = 5 \<or> dealer = 6) then Stand
      else if t = 11 \<and> 2 \<le> dealer \<and> dealer \<le> 11 then Double
      else if t = 10 \<and> 2 \<le> dealer \<and> dealer \<le> 9 then Double
      else if t = 9 \<and> 3 \<le> dealer \<and> dealer \<le> 6 then Double
      else Hit)"

definition softTotals_chart :: "nat \<Rightarrow> nat \<Rightarrow> Action" where
  "softTotals_chart t dealer =
     (if (t = 19 \<or> t = 20) \<and> 2 \<le> dealer \<and> dealer \<le> 11 then Stand
      else if t = 18 \<and> 2 \<le> dealer \<and> dealer \<le> 6 then Double
      else if t = 18 \<and> (dealer = 7 \<or> dealer = 8) then Stand
      else if t = 18 \<and> (dealer = 9 \<or> dealer = 10 \<or> dealer = 11) then Hit
      else if t = 17 \<and> 3 \<le> dealer \<and> dealer \<le> 6 then Double
      else if (t = 15 \<or> t = 16) \<and> 4 \<le> dealer \<and> dealer \<le> 6 then Double
      else if (t = 13 \<or> t = 14) \<and> (dealer = 5 \<or> dealer = 6) then Double
      else Hit)"

definition pairSplitting_chart :: "nat \<Rightarrow> nat \<Rightarrow> Action" where
  "pairSplitting_chart p dealer =
     (if (p = 11 \<or> p = 8) \<and> 2 \<le> dealer \<and> dealer \<le> 11 then Split
      else if p = 9 \<and> 2 \<le> dealer \<and> dealer \<le> 9 \<and> dealer \<noteq> 7 then Split
      else if p = 9 \<and> (dealer = 7 \<or> dealer = 10 \<or> dealer = 11) then Stand
      else if p = 7 \<and> 2 \<le> dealer \<and> dealer \<le> 7 then Split
      else if p = 6 \<and> 2 \<le> dealer \<and> dealer \<le> 6 then Split
      else if (p = 3 \<or> p = 2) \<and> 2 \<le> dealer \<and> dealer \<le> 7 then Split
      else Hit)"

record BasicStrategy =
  m_hardTotals :: "nat \<Rightarrow> nat \<Rightarrow> Action"
  m_softTotals :: "nat \<Rightarrow> nat \<Rightarrow> Action"
  m_pairSplitting :: "nat \<Rightarrow> nat \<Rightarrow> Action"
  m_deviationsEnabled :: bool
  m_rules :: string

text \<open>
  The initial loop of \<open>buildStrategyTables\<close> runs its row index from 0 to 21 for all three
  tables, and \<open>m_pairSplitting\<close> is declared with 13 rows. The stores to its rows 13 to 21
  go to the storage that follows the table, where \<open>m_deviationsEnabled\<close> and \<open>m_rules\<close>
  are declared: the flag receives the enumerator \<open>Hit\<close>, which is 0, and is false
  afterwards; the representation of \<open>m_rules\<close> is zeroed, a string of size 0. The chart
  assignments that follow touch the tables only. (The stores beyond the end of the object
  are not modelled.)
\<close>

definition buildStrategyTables :: "BasicStrategy \<Rightarrow> BasicStrategy" where
  "buildStrategyTables bs =
     bs\<lparr>m_hardTotals := hardTotals_chart,
        m_softTotals := softTotals_chart,
        m_pairSplitting := pairSplitting_chart,
        m_deviationsEnabled := False,
        m_rules := []\<rparr>"

text \<open>
  The constructor: member initialisers (the flag starts as \<open>true\<close>), then
  \<open>buildStrategyTables\<close>.
\<close>

definition BasicStrategy_ctor :: BasicStrategy where
  "BasicStrategy_ctor =
     buildStrategyTables
       \<lparr>m_hardTotals = (\<lambda>t dealer. Hit), m_softTotals = (\<lambda>t dealer. Hit),
        m_pairSplitting = (\<lambda>p dealer. Hit), m_deviationsEnabled = True, m_rules = []\<rparr>"

definition BasicStrategy_initialize :: "string \<Rightarrow> BasicStrategy \<Rightarrow> BasicStrategy" where
  "BasicStrategy_initialize rules bs = buildStrategyTables (bs\<lparr>m_rules := rules\<rparr>)"

text \<open>\<open>m_rules.find(sub) != std::string::npos\<close>.\<close>

fun str_contains :: "string \<Rightarrow> string \<Rightarrow> bool" where
  "str_contains [] sub = (sub = [])"
| "str_contains (c # cs) sub = (take (length sub) (c # cs) = sub \<or> str_contains cs sub)"

text \<open>
  \<open>getAction\<close>. \<open>playerTotal\<close> is a \<open>uint32_t\<close>; the dealer's rank is cast to \<open>int\<close> and
  an Ace becomes 11. The true count (a \<open>float\<close> in the source) is a real number here; the
  source only compares it with constants that a \<open>float\<close> holds exactly.
\<close>

definition getAction :: "BasicStrategy \<Rightarrow> nat \<Rightarrow> CardRank \<Rightarrow> bool \<Rightarrow> bool \<Rightarrow> bool \<Rightarrow> Action" where
  "getAction bs playerTotal dealerUpcard isSoft canDouble canSplit =
     (let dealerValue = (if rank_int dealerUpcard = 1 then 11 else rank_int dealerUpcard) in
      if playerTotal < 4 \<or> playerTotal > 21 then Stand
      else if dealerValue < 2 \<or> dealerValue > 11 then Stand
      else if canSplit \<and> m_pairSplitting bs (playerTotal div 2) (nat dealerValue) = Split then Split
      else
        (let action = (if isSoft then m_softTotals bs playerTotal (nat dealerValue)
                       else m_hardTotals bs playerTotal (nat dealerValue))
         in if action = Double \<and> \<not> canDouble then Hit else action))"

definition getDeviationAction :: "BasicStrategy \<Rightarrow> nat \<Rightarrow> CardRank \<Rightarrow> real \<Rightarrow> Action" where
  "getDeviationAction bs playerTotal dealerUpcard trueCount =
     (if \<not> m_deviationsEnabled bs then getAction bs playerTotal dealerUpcard False True False
      else
       (let dealerValue = (if rank_int dealerUpcard = 1 then 11 else rank_int dealerUpcard) in
        if playerTotal = 16 \<and> dealerValue = 10 then (if trueCount \<ge> 0 then Stand else Hit)
        else if playerTotal = 15 \<and> dealerValue = 10 then (if trueCount \<ge> 0 then Surrender else Hit)
        else if playerTotal = 16 \<and> dealerValue = 9 then (if trueCount \<ge> 5 then Stand else Hit)
        else if playerTotal = 13 \<and> dealerValue = 2 then (if trueCount \<ge> -1 then Stand else Hit)
        else if playerTotal = 13 \<and> dealerValue = 3 then (if trueCount \<ge> -2 then Stand else Hit)
        else if playerTotal = 11 \<and> dealerValue = 11 then (if trueCount \<ge> 1 then Double else Hit)
        else if playerTotal = 10 \<and> dealerValue = 10 then (if trueCount \<ge> 4 then Double else Hit)
        else if playerTotal = 10 \<and> dealerValue = 11 then (if trueCount \<ge> 4 then Double else Hit)
        else if playerTotal = 9 \<and> dealerValue = 2 then (if trueCount \<ge> 1 then Double else Hit)
        else if playerTotal = 9 \<and> dealerValue = 7 then (if trueCount \<ge> 3 then Double else Hit)
        else if playerTotal = 12 \<and> dealerValue = 3 then (if trueCount \<ge> 2 then Stand else Hit)
        else if playerTotal = 12 \<and> dealerValue = 2 then (if trueCount \<ge> 3 then Stand else Hit)
        else if playerTotal = 15 \<and> dealerValue = 11 then
          (if str_contains (m_rules bs) ''h17'' \<and> trueCount \<ge> 1 then Stand else Hit)
        else if playerTotal = 16 \<and> dealerValue = 11 then (if trueCount \<ge> 2 then Stand else Hit)
        else if playerTotal = 12 \<and> dealerValue = 4 then (if trueCount \<ge> 0 then Stand else Hit)
        else if playerTotal = 14 \<and> dealerValue = 10 then (if trueCount \<ge> 3 then Surrender else Hit)
        else if playerTotal = 15 \<and> dealerValue = 9 then (if trueCount \<ge> 2 then Surrender else Hit)
        else if playerTotal = 15 \<and> dealerValue = 11 then
          (if str_contains (m_rules bs) ''s17'' then (if trueCount \<ge> 1 then Surrender else Hit)
           else if str_contains (m_rules bs) ''h17'' then (if trueCount \<ge> -1 then Surrender else Hit)
           else Hit)
        else getAction bs playerTotal dealerUpcard False True False))"

section \<open>Betting engine (betting_strategy.hpp, betting_strategy.cpp)\<close>

text \<open>
  Amounts (\<open>double\<close>) and the true count (\<open>float\<close>) are real numbers here; the spread is
  the array of five \<open>uint32_t\<close> units.
\<close>

record BettingStrategy =
  m_minBet :: real
  m_maxBet :: real
  m_kellyFraction :: real
  m_bankroll :: real
  m_betSpread :: "nat list"

definition BettingStrategy_ctor :: BettingStrategy where
  "BettingStrategy_ctor =
     \<lparr>m_minBet = 10, m_maxBet = 500, m_kellyFraction = 1 / 4, m_bankroll = 10000,
      m_betSpread = [1, 2, 4, 8, 12]\<rparr>"

definition configure :: "real \<Rightarrow> real \<Rightarrow> real \<Rightarrow> BettingStrategy \<Rightarrow> BettingStrategy" where
  "configure minBet maxBet kellyFraction b =
     b\<lparr>m_minBet := minBet, m_maxBet := maxBet, m_kellyFraction := kellyFraction\<rparr>"

definition getCamouflageBet :: "BettingStrategy \<Rightarrow> real \<Rightarrow> real" where
  "getCamouflageBet b trueCount =
     (let units =
        (if trueCount \<le> 0 then m_betSpread b ! 0
         else if trueCount \<ge> 1 \<and> trueCount < 2 then m_betSpread b ! 1
         else if trueCount \<ge> 2 \<and> trueCount < 3 then m_betSpread b ! 2
         else if trueCount \<ge> 3 \<and> trueCount < 4 then m_betSpread b ! 3
         else m_betSpread b ! 4);
          betAmount = m_minBet b * real units
      in min betAmount (m_maxBet b))"

section \<open>Shuffle detector (shuffle_detector.hpp, shuffle_detector.cpp)\<close>

text \<open>
  The indicators named by \<open>shuffle_detector.cpp\<close>. \<open>NoneInd\<close> is the enumerator \<open>None\<close>.
\<close>

datatype ShuffleIndicator =
  NoneInd | CardDepletion | PenetrationReached | LongPause | AllCardsGone | DuplicateCard
  | ImpossibleSequence | VisualCue

text \<open>\<open>cards_seen\<close> is an array of 52 \<open>uint8_t\<close>, the two counters are \<open>uint32_t\<close>.\<close>

record CardInventory =
  cards_seen :: "nat list"
  total_cards_seen :: nat
  deck_count :: nat

definition CardInventory_reset :: "CardInventory \<Rightarrow> CardInventory" where
  "CardInventory_reset iv = iv\<lparr>cards_seen := replicate 52 0, total_cards_seen := 0\<rparr>"

definition CardInventory_addCard :: "CardInventory \<Rightarrow> nat \<Rightarrow> CardInventory \<times> bool" where
  "CardInventory_addCard iv n =
     (if n \<ge> 52 then (iv, False)
      else (iv\<lparr>cards_seen := (cards_seen iv)[n := u8 (cards_seen iv ! n + 1)],
                total_cards_seen := u32 (total_cards_seen iv + 1)\<rparr>, True))"

definition isImpossible :: "CardInventory \<Rightarrow> bool" where
  "isImpossible iv =
     (if list_ex (\<lambda>count. count > deck_count iv) (cards_seen iv) then True
      else
        (let max_total = u32 (deck_count iv * 52)
         in if total_cards_seen iv > max_total then True else False))"

text \<open>
  The penetration is a \<open>float\<close> quotient in the source; here it is the exact quotient, and
  the rounding of the division is not modelled.
\<close>

definition getPenetration :: "CardInventory \<Rightarrow> real" where
  "getPenetration iv =
     (let total_cards_in_shoe = u32 (deck_count iv * 52)
      in if total_cards_in_shoe = 0 then 0
         else real (total_cards_seen iv) / real total_cards_in_shoe)"

definition hasReachedPenetrationLimit :: "CardInventory \<Rightarrow> real \<Rightarrow> bool" where
  "hasReachedPenetrationLimit iv limit = (getPenetration iv \<ge> limit)"

text \<open>
  The detector. \<open>session_cards\<close> is the function-local \<open>static std::set<uint8_t>\<close> of
  \<open>update\<close>: one set for the whole process, which no member function clears. It is
  carried in the record so that \<open>update\<close> can read and extend it.
\<close>

record ShuffleDetector =
  m_inventory :: CardInventory
  m_lastCardDetection :: int
  m_lastResetTime :: int
  m_shuffleDetected :: bool
  m_lastIndicator :: ShuffleIndicator
  m_previousFrameCardCount :: nat
  m_previousFrameCards :: "nat list"
  m_recentCards :: "nat list"
  m_sd_deckCount :: nat
  m_penetrationLimit :: real
  m_inactivityThresholdSec :: int
  m_minCardsBeforeReset :: int
  m_consecutiveEmptyFrames :: nat
  session_cards :: "nat set"

definition EMPTY_FRAMES_THRESHOLD :: nat where
  "EMPTY_FRAMES_THRESHOLD = 60"

text \<open>
  Modelled from the spec: \<open>MAX_RECENT_CARDS\<close>, the capacity of the recent-history buffer.
  \<open>shuffle_detector.cpp\<close> uses the constant, the header under \<open>src/\<close> does not declare it;
  the specification gives the capacity as 500.
\<close>

definition MAX_RECENT_CARDS :: nat where
  "MAX_RECENT_CARDS = 500"

text \<open>
  The constructor reads the clock once; \<open>sc\<close> is the content of the static set at that
  moment (empty in a fresh process).
\<close>

definition ShuffleDetector_ctor :: "int \<Rightarrow> nat set \<Rightarrow> ShuffleDetector" where
  "ShuffleDetector_ctor now sc =
     \<lparr>m_inventory = \<lparr>cards_seen = replicate 52 0, total_cards_seen = 0, deck_count = 6\<rparr>,
      m_lastCardDetection = now, m_lastResetTime = now, m_shuffleDetected = False,
      m_lastIndicator = NoneInd, m_previousFrameCardCount = 0, m_previousFrameCards = [],
      m_recentCards = [], m_sd_deckCount = 6, m_penetrationLimit = 3 / 4,
      m_inactivityThresholdSec = 30, m_minCardsBeforeReset = 26,
      m_consecutiveEmptyFrames = 0, session_cards = sc\<rparr>"

definition ShuffleDetector_initialize :: "nat \<Rightarrow> real \<Rightarrow> ShuffleDetector \<Rightarrow> ShuffleDetector" where
  "ShuffleDetector_initialize deckCount penetration_limit s =
     s\<lparr>m_sd_deckCount := deckCount,
       m_penetrationLimit := penetration_limit,
       m_inventory := CardInventory_reset ((m_inventory s)\<lparr>deck_count := deckCount\<rparr>)\<rparr>"

definition ShuffleDetector_reset :: "int \<Rightarrow> ShuffleDetector \<Rightarrow> ShuffleDetector" where
  "ShuffleDetector_reset now s =
     s\<lparr>m_inventory := CardInventory_reset (m_inventory s),
       m_shuffleDetected := False,
       m_lastIndicator := NoneInd,
       m_previousFrameCardCount := 0,
       m_previousFrameCards := [],
       m_recentCards := [],
       m_consecutiveEmptyFrames := 0,
       m_lastResetTime := now\<rparr>"

definition forceReset :: "int \<Rightarrow> ShuffleDetector \<Rightarrow> ShuffleDetector" where
  "forceReset now s = ShuffleDetector_reset now s"

definition setMinCardsForReset :: "int \<Rightarrow> ShuffleDetector \<Rightarrow> ShuffleDetector" where
  "setMinCardsForReset n s = s\<lparr>m_minCardsBeforeReset := n\<rparr>"

definition setInactivityThreshold :: "int \<Rightarrow> ShuffleDetector \<Rightarrow> ShuffleDetector" where
  "setInactivityThreshold n s = s\<lparr>m_inactivityThresholdSec := n\<rparr>"

definition setPenetrationLimit :: "real \<Rightarrow> ShuffleDetector \<Rightarrow> ShuffleDetector" where
  "setPenetrationLimit l s = s\<lparr>m_penetrationLimit := l\<rparr>"

definition triggerShuffleDetection :: "ShuffleIndicator \<Rightarrow> ShuffleDetector \<Rightarrow> ShuffleDetector" where
  "triggerShuffleDetection indicator s =
     (if m_shuffleDetected s then s
      else s\<lparr>m_shuffleDetected := True, m_lastIndicator := indicator\<rparr>)"

definition isShuffleDetected :: "ShuffleDetector \<Rightarrow> bool" where
  "isShuffleDetected s = m_shuffleDetected s"

definition getLastIndicator :: "ShuffleDetector \<Rightarrow> ShuffleIndicator" where
  "getLastIndicator s = m_lastIndicator s"

text \<open>
  \<open>checkDuplicateCard\<close>: nothing below ten entries; otherwise the loop runs over the
  indices \<open>0 .. size - 2\<close> of the buffer and triggers at the first match.
\<close>

definition checkDuplicateCard :: "nat \<Rightarrow> ShuffleDetector \<Rightarrow> ShuffleDetector" where
  "checkDuplicateCard n s =
     (if length (m_recentCards s) < 10 then s
      else if list_ex (\<lambda>x. x = n) (take (length (m_recentCards s) - 1) (m_recentCards s))
           then triggerShuffleDetection DuplicateCard s
      else s)"

definition checkCardDepletion :: "ShuffleDetector \<Rightarrow> ShuffleDetector" where
  "checkCardDepletion s =
     (if isImpossible (m_inventory s) then triggerShuffleDetection CardDepletion s else s)"

text \<open>
  The comparison of the \<open>uint32_t\<close> counter with the \<open>int\<close> minimum converts the minimum
  to \<open>uint32_t\<close>.
\<close>

definition checkPenetration :: "ShuffleDetector \<Rightarrow> ShuffleDetector" where
  "checkPenetration s =
     (if total_cards_seen (m_inventory s) < int_to_u32 (m_minCardsBeforeReset s) then s
      else if hasReachedPenetrationLimit (m_inventory s) (m_penetrationLimit s)
           then triggerShuffleDetection PenetrationReached s
      else s)"

text \<open>\<open>duration_cast<seconds>\<close> of a tick difference (nanoseconds): truncation towards zero.\<close>

definition duration_seconds :: "int \<Rightarrow> int" where
  "duration_seconds d = (if d \<ge> 0 then d div 1000000000 else - ((- d) div 1000000000))"

definition getTimeSinceLastCard :: "int \<Rightarrow> ShuffleDetector \<Rightarrow> int" where
  "getTimeSinceLastCard now s = duration_seconds (now - m_lastCardDetection s)"

definition checkInactivity :: "int \<Rightarrow> ShuffleDetector \<Rightarrow> ShuffleDetector" where
  "checkInactivity now s =
     (if total_cards_seen (m_inventory s) < int_to_u32 (m_minCardsBeforeReset s) then s
      else if getTimeSinceLastCard now s \<ge> m_inactivityThresholdSec s
           then triggerShuffleDetection LongPause s
      else s)"

definition checkCardDisappearance :: "ShuffleDetector \<Rightarrow> ShuffleDetector" where
  "checkCardDisappearance s =
     (if m_consecutiveEmptyFrames s \<ge> EMPTY_FRAMES_THRESHOLD then
        (let s1 = (if total_cards_seen (m_inventory s) \<ge> int_to_u32 (m_minCardsBeforeReset s)
                   then triggerShuffleDetection AllCardsGone s else s)
         in s1\<lparr>m_consecutiveEmptyFrames := 0\<rparr>)
      else s)"

definition checkImpossibleSequence :: "ShuffleDetector \<Rightarrow> ShuffleDetector" where
  "checkImpossibleSequence s = s"

text \<open>The buffer after \<open>push_back\<close> and the erase of the oldest entry past the capacity.\<close>

definition push_recent :: "nat list \<Rightarrow> nat \<Rightarrow> nat list" where
  "push_recent rc n = (let r = rc @ [n] in if length r > MAX_RECENT_CARDS then tl r else r)"

text \<open>The body of the loop of \<open>update\<close> over the detections of the frame.\<close>

definition process_detection :: "ShuffleDetector \<Rightarrow> nat \<Rightarrow> ShuffleDetector" where
  "process_detection s n =
     (let s1 = checkDuplicateCard n s;
          s2 = (if n \<notin> session_cards s1
                then s1\<lparr>m_inventory := fst (CardInventory_addCard (m_inventory s1) n),
                        session_cards := insert n (session_cards s1)\<rparr>
                else s1)
      in s2\<lparr>m_recentCards := push_recent (m_recentCards s2) n\<rparr>)"

text \<open>
  One call of \<open>update\<close>: the detections of the frame and the two readings of the steady
  clock the call makes, on entry (if the frame has detections) and in \<open>checkInactivity\<close>.
\<close>

record Frame =
  detections :: "Detection list"
  now_entry :: int
  now_check :: int

definition ShuffleDetector_update :: "ShuffleDetector \<Rightarrow> Frame \<Rightarrow> ShuffleDetector" where
  "ShuffleDetector_update s fr =
     (let s0 = (if detections fr \<noteq> []
                then s\<lparr>m_lastCardDetection := now_entry fr, m_consecutiveEmptyFrames := 0\<rparr>
                else s\<lparr>m_consecutiveEmptyFrames := u32 (m_consecutiveEmptyFrames s + 1)\<rparr>);
          s1 = foldl process_detection s0 (map card_id (detections fr));
          s2 = checkCardDepletion s1;
          s3 = checkPenetration s2;
          s4 = checkInactivity (now_check fr) s3;
          s5 = checkCardDisappearance s4;
          s6 = checkImpossibleSequence s5
      in s6\<lparr>m_previousFrameCardCount := u32 (length (detections fr)),
             m_previousFrameCards := map card_id (detections fr)\<rparr>)"

definition updates :: "ShuffleDetector \<Rightarrow> Frame list \<Rightarrow> ShuffleDetector" where
  "updates s frs = foldl ShuffleDetector_update s frs"

text \<open>A frame showing the cards \<open>ids\<close>, with both clock readings at \<open>t\<close>.\<close>

definition frame_of :: "int \<Rightarrow> nat list \<Rightarrow> Frame" where
  "frame_of t ids =
     \<lparr>detections = map (\<lambda>n. \<lparr>card_id = n, det_confidence = 100\<rparr>) ids,
      now_entry = t, now_check = t\<rparr>"

section \<open>Orchestrator (realtime_advisor.hpp, realtime_advisor.cpp)\<close>

text \<open>
  The parts of the advisor that the count depends on: the card counter, the game state
  and \<open>countedCards\<close>, the function-local \<open>static std::set<uint8_t>\<close> of
  \<open>updateCardCount\<close>. The audio alert of \<open>resetCount\<close> is an output and is left out.
\<close>

record RealtimeAdvisor =
  m_cardCounter :: CardCounter
  m_gameState :: GameStateTracker
  countedCards :: "nat set"

definition count_detection :: "RealtimeAdvisor \<Rightarrow> Detection \<Rightarrow> RealtimeAdvisor" where
  "count_detection adv det =
     (if card_id det \<notin> countedCards adv then
        (let crd = \<lparr>rank = rank_of_id (card_id det), suit = suit_of_id (card_id det),
                    confidence = u8 (det_confidence det)\<rparr>
         in adv\<lparr>m_cardCounter := addCard (m_cardCounter adv) crd,
                countedCards := insert (card_id det) (countedCards adv)\<rparr>)
      else adv)"

definition updateCardCount :: "RealtimeAdvisor \<Rightarrow> Detection list \<Rightarrow> RealtimeAdvisor" where
  "updateCardCount adv dets = foldl count_detection adv dets"

definition resetCount :: "RealtimeAdvisor \<Rightarrow> RealtimeAdvisor" where
  "resetCount adv =
     adv\<lparr>m_cardCounter := CardCounter_reset (m_cardCounter adv),
         m_gameState := resetForNewShoe (m_gameState adv)\<rparr>"

text \<open>
  The advisor after \<open>initialize\<close> in a fresh process: a counter initialised for
  \<open>deckCount\<close> decks, a new game state, nothing counted yet.
\<close>

definition RealtimeAdvisor_init :: "nat \<Rightarrow> int \<Rightarrow> RealtimeAdvisor" where
  "RealtimeAdvisor_init deckCount now =
     \<lparr>m_cardCounter =
        CardCounter_initialize deckCount
          \<lparr>m_runningCount = 0, m_cardsPlayed = 0, m_deckCount = 6, m_cardsSeen = replicate 52 0\<rparr>,
      m_gameState = GameStateTracker_ctor now,
      countedCards = {}\<rparr>"

section \<open>Auxiliary definitions for the statements\<close>

text \<open>The sum of the Hi-Lo values of a sequence of cards, as an integer.\<close>

definition hilo_sum :: "Card list \<Rightarrow> int" where
  "hilo_sum cs = sum_list (map (\<lambda>crd. getHiLoValue (rank crd)) cs)"

definition fresh_counter :: CardCounter where
  "fresh_counter =
     CardCounter_initialize 6
       \<lparr>m_runningCount = 0, m_cardsPlayed = 0, m_deckCount = 6, m_cardsSeen = replicate 52 0\<rparr>"

definition example_cards :: "Card list" where
  "example_cards =
     [\<lparr>rank = Two, suit = Hearts, confidence = 100\<rparr>,
      \<lparr>rank = King, suit = Spades, confidence = 100\<rparr>,
      \<lparr>rank = Five, suit = Clubs, confidence = 100\<rparr>,
      \<lparr>rank = Seven, suit = Diamonds, confidence = 100\<rparr>,
      \<lparr>rank = Three, suit = Hearts, confidence = 100\<rparr>]"

text \<open>
  The raw total of a hand (every Ace counted as 11, as \<open>getValue\<close> does) and the number
  of its Aces, as integers.
\<close>

definition raw_total :: "Card list \<Rightarrow> int" where
  "raw_total cs = sum_list (map getValue cs)"

definition ace_count :: "Card list \<Rightarrow> int" where
  "ace_count cs = int (length (filter (\<lambda>crd. rank crd = Ace) cs))"

definition mk_card :: "CardRank \<Rightarrow> CardSuit \<Rightarrow> Card" where
  "mk_card r s = \<lparr>rank = r, suit = s, confidence = 100\<rparr>"

text \<open>The column of the strategy tables that \<open>getAction\<close> reads for a dealer upcard.\<close>

definition dealer_column :: "CardRank \<Rightarrow> int" where
  "dealer_column dealerUpcard = (if rank_int dealerUpcard = 1 then 11 else rank_int dealerUpcard)"

text \<open>The strategy object after construction and \<open>initialize(rules)\<close>.\<close>

definition strategy_for :: "string \<Rightarrow> BasicStrategy" where
  "strategy_for rules = BasicStrategy_initialize rules BasicStrategy_ctor"

text \<open>A detection of the card identity \<open>n\<close>.\<close>

definition detection_of :: "nat \<Rightarrow> Detection" where
  "detection_of n = \<lparr>card_id = n, det_confidence = 100\<rparr>"

text \<open>
  Whether the duplicate check fires for one of the identities of a frame: the check for an
  identity reads the buffer as the identities before it in the frame have left it.
\<close>

fun dup_in_frame :: "nat list \<Rightarrow> nat list \<Rightarrow> bool" where
  "dup_in_frame rc [] = False"
| "dup_in_frame rc (n # ns) =
     ((length rc \<ge> 10 \<and> n \<in> set (take (length rc - 1) rc)) \<or> dup_in_frame (push_recent rc n) ns)"

text \<open>
  The inventory counts every identity at most once, only identities of the session set,
  and the total is the sum of the per-identity counts.
\<close>

definition once_each :: "ShuffleDetector \<Rightarrow> bool" where
  "once_each s =
     (length (cards_seen (m_inventory s)) = 52
      \<and> (\<forall>i < 52. cards_seen (m_inventory s) ! i \<le> 1)
      \<and> (\<forall>i < 52. cards_seen (m_inventory s) ! i = 1 \<longrightarrow> i \<in> session_cards s)
      \<and> total_cards_seen (m_inventory s) = sum_list (cards_seen (m_inventory s)))"

text \<open>
  Detectors in a fresh process (empty session set, clock at 0), initialised for one deck,
  for six decks and for 2^30 decks at a penetration limit of 75%, and states reached from
  them: the one-deck detector after a frame showing the identities 0 to 37, the six-deck
  detector after a frame showing the identities 0 to 9.
\<close>

definition one_deck_detector :: ShuffleDetector where
  "one_deck_detector = ShuffleDetector_initialize 1 (3 / 4) (ShuffleDetector_ctor 0 {})"

definition six_deck_detector :: ShuffleDetector where
  "six_deck_detector = ShuffleDetector_initialize 6 (3 / 4) (ShuffleDetector_ctor 0 {})"

definition huge_shoe_detector :: ShuffleDetector where
  "huge_shoe_detector = ShuffleDetector_initialize 1073741824 (3 / 4) (ShuffleDetector_ctor 0 {})"

definition after_38_cards :: ShuffleDetector where
  "after_38_cards =
     ShuffleDetector_update one_deck_detector
       (frame_of 0 [0, 1, 2, 3, 4, 5, 6, 7, 8, 9, 10, 11, 12, 13, 14, 15, 16, 17, 18,
                    19, 20, 21, 22, 23, 24, 25, 26, 27, 28, 29, 30, 31, 32, 33, 34, 35, 36, 37])"

definition after_ten_cards :: ShuffleDetector where
  "after_ten_cards =
     ShuffleDetector_update six_deck_detector (frame_of 0 [0, 1, 2, 3, 4, 5, 6, 7, 8, 9])"

text \<open>
  The first 234 cards of a six-deck shoe, one card per frame: card number \<open>i\<close> has the
  identity \<open>i mod 52\<close>.
\<close>

definition six_deck_shoe_frames :: "Frame list" where
  "six_deck_shoe_frames = map (\<lambda>i. frame_of (int i) [i mod 52]) [0..<234]"

section \<open>Properties of the count engine\<close>

lemma wrap32_wrap32_add: "wrap32 (wrap32 a + b) = wrap32 (a + b)"
proof -
  have "(wrap32 a + b + 2147483648) mod 4294967296 =
        ((a + 2147483648) mod 4294967296 + b) mod 4294967296"
    by (simp add: wrap32_def)
  also have "\<dots> = (a + 2147483648 + b) mod 4294967296"
    by (rule mod_add_left_eq)
  also have "a + 2147483648 + b = a + b + 2147483648"
    by simp
  finally have "(wrap32 a + b + 2147483648) mod 4294967296 = (a + b + 2147483648) mod 4294967296" .
  then show ?thesis
    unfolding wrap32_def [of "wrap32 a + b"] wrap32_def [of "a + b"] by simp
qed

lemma wrap32_id: "- 2147483648 \<le> x \<Longrightarrow> x < 2147483648 \<Longrightarrow> wrap32 x = x"
  unfolding wrap32_def by simp

lemma wrap32_range: "- 2147483648 \<le> wrap32 x \<and> wrap32 x < 2147483648"
proof -
  have "0 \<le> (x + 2147483648) mod 4294967296" "(x + 2147483648) mod 4294967296 < 4294967296"
    by simp_all
  then show ?thesis unfolding wrap32_def by linarith
qed

lemma wrap32_idem: "wrap32 (wrap32 x) = wrap32 x"
  using wrap32_range [of x] by (simp add: wrap32_id)

lemma addCard_runningCount:
  "m_runningCount (addCard c crd) = wrap32 (m_runningCount c + getHiLoValue (rank crd))"
  by (simp add: addCard_def Let_def)

lemma addCards_runningCount_wrap:
  "wrap32 (m_runningCount (addCards c cs)) = wrap32 (m_runningCount c + hilo_sum cs)"
proof (induction cs arbitrary: c)
  case Nil
  show ?case by (simp add: addCards_def hilo_sum_def)
next
  case (Cons crd cs)
  have "wrap32 (m_runningCount (addCards c (crd # cs))) =
        wrap32 (m_runningCount (addCards (addCard c crd) cs))"
    by (simp add: addCards_def)
  also have "\<dots> = wrap32 (m_runningCount (addCard c crd) + hilo_sum cs)"
    by (rule Cons.IH)
  also have "\<dots> = wrap32 (m_runningCount c + getHiLoValue (rank crd) + hilo_sum cs)"
    by (simp add: addCard_runningCount wrap32_wrap32_add)
  finally show ?case by (simp add: add.assoc hilo_sum_def)
qed

lemma addCards_runningCount_stored:
  "wrap32 (m_runningCount c) = m_runningCount c \<Longrightarrow>
   wrap32 (m_runningCount (addCards c cs)) = m_runningCount (addCards c cs)"
proof (induction cs arbitrary: c)
  case Nil
  then show ?case by (simp add: addCards_def)
next
  case (Cons crd cs)
  have "wrap32 (m_runningCount (addCard c crd)) = m_runningCount (addCard c crd)"
    by (simp add: addCard_runningCount wrap32_idem)
  from Cons.IH [OF this] show ?case by (simp add: addCards_def)
qed

lemma addCards_after_reset:
  "m_runningCount (addCards (CardCounter_reset c) cs) = wrap32 (hilo_sum cs)"
proof -
  have z: "m_runningCount (CardCounter_reset c) = 0"
    by (simp add: CardCounter_reset_def)
  have "wrap32 (m_runningCount (CardCounter_reset c)) = m_runningCount (CardCounter_reset c)"
    by (simp add: z wrap32_def)
  from addCards_runningCount_stored [OF this]
  have "m_runningCount (addCards (CardCounter_reset c) cs) =
        wrap32 (m_runningCount (addCards (CardCounter_reset c) cs))"
    by simp
  also have "\<dots> = wrap32 (hilo_sum cs)"
    by (simp add: addCards_runningCount_wrap z)
  finally show ?thesis .
qed

lemma getHiLoValue_table:
  "getHiLoValue r =
     (if r \<in> {Two, Three, Four, Five, Six} then 1
      else if r \<in> {Seven, Eight, Nine} then 0
      else - 1)"
  by (cases r) (simp_all add: getHiLoValue_def)

lemma getHiLoValue_abs: "\<bar>getHiLoValue r\<bar> \<le> 1"
  by (cases r) (simp_all add: getHiLoValue_def)

lemma hilo_sum_abs: "\<bar>hilo_sum cs\<bar> \<le> int (length cs)"
proof (induction cs)
  case Nil
  show ?case by (simp add: hilo_sum_def)
next
  case (Cons crd cs)
  have "hilo_sum (crd # cs) = getHiLoValue (rank crd) + hilo_sum cs"
    by (simp add: hilo_sum_def)
  then show ?case
    using Cons.IH getHiLoValue_abs [of "rank crd"] by simp
qed

lemma hilo_sum_mset: "mset xs = mset ys \<Longrightarrow> hilo_sum xs = hilo_sum ys"
proof -
  assume "mset xs = mset ys"
  then have "mset (map (\<lambda>crd. getHiLoValue (rank crd)) xs) = mset (map (\<lambda>crd. getHiLoValue (rank crd)) ys)"
    by (metis mset_map)
  then have "sum_mset (mset (map (\<lambda>crd. getHiLoValue (rank crd)) xs)) =
             sum_mset (mset (map (\<lambda>crd. getHiLoValue (rank crd)) ys))"
    by simp
  then show ?thesis
    unfolding hilo_sum_def sum_mset_sum_list .
qed

text \<open>
  C7 (as amended). After a reset, the running count left by any sequence of confirmed
  cs is the sum of their Hi-Lo values as a 32-bit signed integer holds it; it is the
  sum itself for every sequence of fewer than 2^31 cs; and it is the same for every
  permutation of the sequence. The Hi-Lo value is +1 for the ranks 2 to 6, 0 for 7 to 9
  and -1 for 10, the faces and the Ace.
\<close>

theorem count_additivity:
  "getHiLoValue r =
     (if r \<in> {Two, Three, Four, Five, Six} then 1 else if r \<in> {Seven, Eight, Nine} then 0 else - 1)
   \<and> getRunningCount (addCards (CardCounter_reset c) cs) = wrap32 (hilo_sum cs)
   \<and> (length cs < 2147483648 \<longrightarrow>
        getRunningCount (addCards (CardCounter_reset c) cs) = hilo_sum cs)
   \<and> (mset cs' = mset cs \<longrightarrow>
        getRunningCount (addCards (CardCounter_reset c) cs') =
        getRunningCount (addCards (CardCounter_reset c) cs))"
proof (intro conjI impI)
  show "getHiLoValue r =
     (if r \<in> {Two, Three, Four, Five, Six} then 1 else if r \<in> {Seven, Eight, Nine} then 0 else - 1)"
    by (rule getHiLoValue_table)
next
  show "getRunningCount (addCards (CardCounter_reset c) cs) = wrap32 (hilo_sum cs)"
    by (simp add: getRunningCount_def addCards_after_reset)
next
  assume len: "length cs < 2147483648"
  have "\<bar>hilo_sum cs\<bar> \<le> int (length cs)"
    by (rule hilo_sum_abs)
  with len have "- 2147483648 \<le> hilo_sum cs" "hilo_sum cs < 2147483648"
    by linarith+
  then have "wrap32 (hilo_sum cs) = hilo_sum cs"
    by (rule wrap32_id)
  then show "getRunningCount (addCards (CardCounter_reset c) cs) = hilo_sum cs"
    by (simp add: getRunningCount_def addCards_after_reset)
next
  assume "mset cs' = mset cs"
  then have "hilo_sum cs' = hilo_sum cs"
    by (rule hilo_sum_mset)
  then show "getRunningCount (addCards (CardCounter_reset c) cs') =
             getRunningCount (addCards (CardCounter_reset c) cs)"
    by (simp add: getRunningCount_def addCards_after_reset)
qed

text \<open>
  The statement at five cards and their reversal: both orders leave a running count of 2,
  the sum of the Hi-Lo values.
\<close>

theorem count_additivity_witness:
  "length example_cards < 2147483648
   \<and> mset (rev example_cards) = mset example_cards
   \<and> getRunningCount (addCards (CardCounter_reset fresh_counter) example_cards) = 2
   \<and> getRunningCount (addCards (CardCounter_reset fresh_counter) (rev example_cards)) = 2
   \<and> hilo_sum example_cards = 2"
proof -
  have l: "length example_cards < 2147483648"
    by (simp add: example_cards_def)
  have m: "mset (rev example_cards) = mset example_cards"
    by simp
  have s: "hilo_sum example_cards = 2"
    by (simp add: hilo_sum_def example_cards_def getHiLoValue_def)
  from count_additivity [of Two fresh_counter example_cards "rev example_cards"] l m s
  show ?thesis by simp
qed

lemma hilo_sum_replicate: "hilo_sum (replicate n crd) = int n * getHiLoValue (rank crd)"
  by (simp add: hilo_sum_def sum_list_replicate)

text \<open>
  With 2^31 cards of rank Two the sum of the Hi-Lo values is 2^31, which the 32-bit
  running count does not hold.
\<close>

theorem count_additivity_counterexample:
  "getRunningCount
     (addCards (CardCounter_reset fresh_counter)
        (replicate 2147483648 \<lparr>rank = Two, suit = Hearts, confidence = 100\<rparr>))
   \<noteq> hilo_sum (replicate 2147483648 \<lparr>rank = Two, suit = Hearts, confidence = 100\<rparr>)"
  by (simp add: getRunningCount_def addCards_after_reset hilo_sum_replicate getHiLoValue_def wrap32_def)

section \<open>Properties of the hand total\<close>

lemma getValue_bounds: "1 \<le> getValue crd \<and> getValue crd \<le> 11"
  by (cases "rank crd") (simp_all add: getValue_def)

lemma raw_total_bounds: "0 \<le> raw_total cs \<and> raw_total cs \<le> 11 * int (length cs)"
proof (induction cs)
  case Nil
  show ?case by (simp add: raw_total_def)
next
  case (Cons crd cs)
  have "raw_total (crd # cs) = getValue crd + raw_total cs"
    by (simp add: raw_total_def)
  then show ?case
    using Cons.IH getValue_bounds [of crd] by simp
qed

lemma ace_count_bounds: "0 \<le> ace_count cs \<and> ace_count cs \<le> int (length cs)"
  by (simp add: ace_count_def)

lemma sum_step_fst: "fst (sum_step acc crd) = wrap32 (fst acc + getValue crd)"
  by (simp add: sum_step_def Let_def)

lemma sum_step_snd:
  "snd (sum_step acc crd) = (if rank crd = Ace then wrap32 (snd acc + 1) else snd acc)"
  by (simp add: sum_step_def Let_def)

lemma sum_loop_fst_wrap:
  "wrap32 (fst (foldl sum_step acc cs)) = wrap32 (fst acc + raw_total cs)"
proof (induction cs arbitrary: acc)
  case Nil
  show ?case by (simp add: raw_total_def)
next
  case (Cons crd cs)
  have "wrap32 (fst (foldl sum_step acc (crd # cs))) =
        wrap32 (fst (sum_step acc crd) + raw_total cs)"
    using Cons.IH [of "sum_step acc crd"] by simp
  also have "\<dots> = wrap32 (fst acc + getValue crd + raw_total cs)"
    by (simp add: sum_step_fst wrap32_wrap32_add)
  finally show ?case by (simp add: raw_total_def add.assoc)
qed

lemma sum_loop_fst_stored:
  "cs \<noteq> [] \<Longrightarrow> wrap32 (fst (foldl sum_step acc cs)) = fst (foldl sum_step acc cs)"
proof (induction cs rule: rev_induct)
  case Nil
  then show ?case by simp
next
  case (snoc crd cs)
  show ?case by (simp add: sum_step_fst wrap32_idem)
qed

lemma sum_loop_fst:
  "cs \<noteq> [] \<Longrightarrow> fst (foldl sum_step (0, 0) cs) = wrap32 (raw_total cs)"
  using sum_loop_fst_stored [of cs "(0, 0)"] sum_loop_fst_wrap [of "(0, 0)" cs] by simp

lemma sum_loop_snd:
  "0 \<le> snd acc \<Longrightarrow> snd acc + int (length cs) < 2147483648 \<Longrightarrow>
   snd (foldl sum_step acc cs) = snd acc + ace_count cs"
proof (induction cs arbitrary: acc)
  case Nil
  show ?case by (simp add: ace_count_def)
next
  case (Cons crd cs)
  have step: "snd (sum_step acc crd) = snd acc + (if rank crd = Ace then 1 else 0)"
    using Cons.prems by (simp add: sum_step_snd wrap32_id)
  have "snd (foldl sum_step (sum_step acc crd) cs) = snd (sum_step acc crd) + ace_count cs"
    using Cons.prems step by (intro Cons.IH) auto
  then show ?case
    using step by (simp add: ace_count_def)
qed

lemma soften_unfold:
  "soften t a = (if t > 21 \<and> a > 0 then soften (wrap32 (t - 10)) (wrap32 (a - 1)) else (t, a))"
  by (rule soften.simps)

lemma soften_char:
  "t < 2147483648 \<Longrightarrow> 0 \<le> a \<Longrightarrow> a < 2147483648 \<Longrightarrow>
   \<exists>k. 0 \<le> k \<and> k \<le> a \<and> soften t a = (t - 10 * k, a - k)
       \<and> (\<forall>j. 0 \<le> j \<and> j < k \<longrightarrow> t - 10 * j > 21)
       \<and> (t - 10 * k \<le> 21 \<or> k = a)"
proof (induction t a rule: soften.induct)
  case (1 t a)
  show ?case
  proof (cases "t > 21 \<and> a > 0")
    case False
    then have "soften t a = (t, a)"
      by (subst soften_unfold) auto
    moreover from False "1.prems" have "t \<le> 21 \<or> 0 = a" by auto
    ultimately show ?thesis
      by (intro exI [of _ 0]) (use "1.prems" in auto)
  next
    case True
    have w1: "wrap32 (t - 10) = t - 10"
      using True "1.prems" by (intro wrap32_id) auto
    have w2: "wrap32 (a - 1) = a - 1"
      using True "1.prems" by (intro wrap32_id) auto
    have "\<exists>k. 0 \<le> k \<and> k \<le> wrap32 (a - 1)
            \<and> soften (wrap32 (t - 10)) (wrap32 (a - 1)) = (wrap32 (t - 10) - 10 * k, wrap32 (a - 1) - k)
            \<and> (\<forall>j. 0 \<le> j \<and> j < k \<longrightarrow> wrap32 (t - 10) - 10 * j > 21)
            \<and> (wrap32 (t - 10) - 10 * k \<le> 21 \<or> k = wrap32 (a - 1))"
      using True "1.prems" by (intro "1.IH") (auto simp: w1 w2)
    then obtain k where k: "0 \<le> k" "k \<le> a - 1"
        "soften (t - 10) (a - 1) = (t - 10 - 10 * k, a - 1 - k)"
        "\<forall>j. 0 \<le> j \<and> j < k \<longrightarrow> t - 10 - 10 * j > 21"
        "t - 10 - 10 * k \<le> 21 \<or> k = a - 1"
      unfolding w1 w2 by blast
    have s: "soften t a = (t - 10 * (k + 1), a - (k + 1))"
      using True k(3) by (subst soften_unfold) (simp add: w1 w2 algebra_simps)
    have all: "\<forall>j. 0 \<le> j \<and> j < k + 1 \<longrightarrow> t - 10 * j > 21"
    proof (intro allI impI)
      fix j :: int
      assume j: "0 \<le> j \<and> j < k + 1"
      show "t - 10 * j > 21"
      proof (cases "j = 0")
        case True
        with \<open>t > 21 \<and> a > 0\<close> show ?thesis by simp
      next
        case False
        with j have "0 \<le> j - 1 \<and> j - 1 < k" by auto
        with k(4) have "t - 10 - 10 * (j - 1) > 21" by blast
        then show ?thesis by (simp add: algebra_simps)
      qed
    qed
    have last: "t - 10 * (k + 1) \<le> 21 \<or> k + 1 = a"
      using k(5) by (auto simp: algebra_simps)
    show ?thesis
      using k(1,2) s all last by (intro exI [of _ "k + 1"]) auto
  qed
qed

lemma calculateHandTotal_example_soft:
  "calculateHandTotal (PlayerHand_default\<lparr>cards := [mk_card Ace Spades, mk_card Six Hearts]\<rparr>)
   = PlayerHand_default\<lparr>cards := [mk_card Ace Spades, mk_card Six Hearts],
       is_soft := True, hand_total := 17, is_busted := False, is_blackjack := False,
       can_double := True\<rparr>"
  by (simp add: calculateHandTotal_def PlayerHand_default_def mk_card_def sum_step_def
      getValue_def Let_def wrap32_def int_to_u32_def soften_unfold [of 17])

lemma calculateHandTotal_example_hard:
  "calculateHandTotal
     (PlayerHand_default\<lparr>cards := [mk_card Ace Spades, mk_card Six Hearts, mk_card Nine Clubs]\<rparr>)
   = PlayerHand_default\<lparr>cards := [mk_card Ace Spades, mk_card Six Hearts, mk_card Nine Clubs],
       is_soft := False, hand_total := 16, is_busted := False, is_blackjack := False,
       can_double := False\<rparr>"
  by (simp add: calculateHandTotal_def PlayerHand_default_def mk_card_def sum_step_def
      getValue_def Let_def wrap32_def int_to_u32_def soften_unfold [of 26] soften_unfold [of 16])
lemma calculateHandTotal_fields:
  assumes ne: "cards hand \<noteq> []" and len: "length (cards hand) \<le> 195225786"
  shows "\<exists>k. 0 \<le> k \<and> k \<le> ace_count (cards hand)
           \<and> (\<forall>j. 0 \<le> j \<and> j < k \<longrightarrow> raw_total (cards hand) - 10 * j > 21)
           \<and> (raw_total (cards hand) - 10 * k \<le> 21 \<or> k = ace_count (cards hand))
           \<and> int (hand_total (calculateHandTotal hand)) = raw_total (cards hand) - 10 * k
           \<and> is_soft (calculateHandTotal hand) = (k < ace_count (cards hand))
           \<and> is_busted (calculateHandTotal hand) = (hand_total (calculateHandTotal hand) > 21)
           \<and> is_blackjack (calculateHandTotal hand) =
               (length (cards hand) = 2 \<and> hand_total (calculateHandTotal hand) = 21)"
proof -
  let ?cs = "cards hand"
  let ?raw = "raw_total ?cs"
  let ?a = "ace_count ?cs"
  have rb: "0 \<le> ?raw" "?raw \<le> 11 * int (length ?cs)"
    using raw_total_bounds [of ?cs] by auto
  have ab: "0 \<le> ?a" "?a \<le> int (length ?cs)"
    using ace_count_bounds [of ?cs] by auto
  have raw_lt: "?raw < 2147483648"
    using rb(2) len by linarith
  have a_lt: "?a < 2147483648"
    using ab(2) len by linarith
  have f: "fst (foldl sum_step (0, 0) ?cs) = ?raw"
    using sum_loop_fst [OF ne] rb(1) raw_lt by (simp add: wrap32_id)
  have s: "snd (foldl sum_step (0, 0) ?cs) = ?a"
    using sum_loop_snd [of "(0, 0)" ?cs] len by simp
  obtain k where k: "0 \<le> k" "k \<le> ?a" "soften ?raw ?a = (?raw - 10 * k, ?a - k)"
      "\<forall>j. 0 \<le> j \<and> j < k \<longrightarrow> ?raw - 10 * j > 21"
      "?raw - 10 * k \<le> 21 \<or> k = ?a"
    using soften_char [OF raw_lt ab(1) a_lt] by blast
  have nonneg: "0 \<le> ?raw - 10 * k"
  proof (cases "k = 0")
    case True
    with rb(1) show ?thesis by simp
  next
    case False
    with k(1) have "0 \<le> k - 1 \<and> k - 1 < k" by auto
    with k(4) have "?raw - 10 * (k - 1) > 21" by blast
    then show ?thesis by (simp add: algebra_simps)
  qed
  have small: "?raw - 10 * k < 4294967296"
    using raw_lt k(1) by linarith
  have tot: "int (hand_total (calculateHandTotal hand)) = ?raw - 10 * k"
    using ne nonneg small by (simp add: calculateHandTotal_def Let_def f s k(3) int_to_u32_def)
  have soft: "is_soft (calculateHandTotal hand) = (k < ?a)"
    using ne by (auto simp: calculateHandTotal_def Let_def f s k(3))
  have bust: "is_busted (calculateHandTotal hand) = (?raw - 10 * k > 21)"
    using ne by (simp add: calculateHandTotal_def Let_def f s k(3))
  have bj: "is_blackjack (calculateHandTotal hand) = (length ?cs = 2 \<and> ?raw - 10 * k = 21)"
    using ne by (simp add: calculateHandTotal_def Let_def f s k(3))
  have bust': "is_busted (calculateHandTotal hand) = (hand_total (calculateHandTotal hand) > 21)"
    using bust tot by linarith
  have bj': "is_blackjack (calculateHandTotal hand) =
             (length ?cs = 2 \<and> hand_total (calculateHandTotal hand) = 21)"
    using bj tot by (metis of_nat_eq_iff of_nat_numeral)
  show ?thesis
    using k(1,2,4,5) tot soft bust' bj' by (intro exI [of _ k]) blast
qed

lemma calculateHandTotal_default:
  "\<exists>k. 0 \<le> k \<and> k \<le> ace_count (cards PlayerHand_default)
       \<and> (\<forall>j. 0 \<le> j \<and> j < k \<longrightarrow> raw_total (cards PlayerHand_default) - 10 * j > 21)
       \<and> (raw_total (cards PlayerHand_default) - 10 * k \<le> 21
            \<or> k = ace_count (cards PlayerHand_default))
       \<and> int (hand_total (calculateHandTotal PlayerHand_default))
            = raw_total (cards PlayerHand_default) - 10 * k
       \<and> is_soft (calculateHandTotal PlayerHand_default) = (k < ace_count (cards PlayerHand_default))
       \<and> is_busted (calculateHandTotal PlayerHand_default)
            = (hand_total (calculateHandTotal PlayerHand_default) > 21)
       \<and> is_blackjack (calculateHandTotal PlayerHand_default) =
            (length (cards PlayerHand_default) = 2
             \<and> hand_total (calculateHandTotal PlayerHand_default) = 21)"
  by (intro exI [of _ 0])
     (simp add: calculateHandTotal_def PlayerHand_default_def raw_total_def ace_count_def)

text \<open>
  C8. For every hand that \<open>calculateHandTotal\<close> can be given (a hand with cards, or the
  hand without cards as \<open>PlayerHand{}\<close> constructs it; at most 195,225,786 cards, so that
  the \<open>int\<close> sum of the card values cannot overflow), the hand it leaves has: the total
  equal to the sum of the card values with every Ace as 11, less 10 for each of \<open>k\<close>
  Aces, where the reduction was applied only while the total exceeded 21 and an Ace was
  left at 11 (every one of the \<open>k\<close> steps started above 21, and it stopped at 21 or less
  or with no Ace left); \<open>is_soft\<close> iff an Ace is still counted as 11; \<open>is_busted\<close> iff the
  total exceeds 21; \<open>is_blackjack\<close> iff the hand has exactly two cards and the total is
  21. A hand with no cards is returned as it is. Ace and 6 give 17, soft; with a 9 added
  they give 16, not soft, not busted.
\<close>

theorem hand_total_computed:
  "(length (cards hand) \<le> 195225786 \<and> (cards hand = [] \<longrightarrow> hand = PlayerHand_default) \<longrightarrow>
      (\<exists>k. 0 \<le> k \<and> k \<le> ace_count (cards hand)
           \<and> (\<forall>j. 0 \<le> j \<and> j < k \<longrightarrow> raw_total (cards hand) - 10 * j > 21)
           \<and> (raw_total (cards hand) - 10 * k \<le> 21 \<or> k = ace_count (cards hand))
           \<and> int (hand_total (calculateHandTotal hand)) = raw_total (cards hand) - 10 * k
           \<and> is_soft (calculateHandTotal hand) = (k < ace_count (cards hand))
           \<and> is_busted (calculateHandTotal hand) = (hand_total (calculateHandTotal hand) > 21)
           \<and> is_blackjack (calculateHandTotal hand) =
               (length (cards hand) = 2 \<and> hand_total (calculateHandTotal hand) = 21)))
   \<and> (cards hand = [] \<longrightarrow> calculateHandTotal hand = hand)
   \<and> hand_total (calculateHandTotal
        (PlayerHand_default\<lparr>cards := [mk_card Ace Spades, mk_card Six Hearts]\<rparr>)) = 17
   \<and> is_soft (calculateHandTotal
        (PlayerHand_default\<lparr>cards := [mk_card Ace Spades, mk_card Six Hearts]\<rparr>))
   \<and> hand_total (calculateHandTotal
        (PlayerHand_default\<lparr>cards := [mk_card Ace Spades, mk_card Six Hearts, mk_card Nine Clubs]\<rparr>)) = 16
   \<and> \<not> is_soft (calculateHandTotal
        (PlayerHand_default\<lparr>cards := [mk_card Ace Spades, mk_card Six Hearts, mk_card Nine Clubs]\<rparr>))
   \<and> \<not> is_busted (calculateHandTotal
        (PlayerHand_default\<lparr>cards := [mk_card Ace Spades, mk_card Six Hearts, mk_card Nine Clubs]\<rparr>))"
proof (intro conjI impI)
  assume a: "length (cards hand) \<le> 195225786 \<and> (cards hand = [] \<longrightarrow> hand = PlayerHand_default)"
  show "\<exists>k. 0 \<le> k \<and> k \<le> ace_count (cards hand)
           \<and> (\<forall>j. 0 \<le> j \<and> j < k \<longrightarrow> raw_total (cards hand) - 10 * j > 21)
           \<and> (raw_total (cards hand) - 10 * k \<le> 21 \<or> k = ace_count (cards hand))
           \<and> int (hand_total (calculateHandTotal hand)) = raw_total (cards hand) - 10 * k
           \<and> is_soft (calculateHandTotal hand) = (k < ace_count (cards hand))
           \<and> is_busted (calculateHandTotal hand) = (hand_total (calculateHandTotal hand) > 21)
           \<and> is_blackjack (calculateHandTotal hand) =
               (length (cards hand) = 2 \<and> hand_total (calculateHandTotal hand) = 21)"
  proof (cases "cards hand = []")
    case True
    with a have "hand = PlayerHand_default" by blast
    then show ?thesis
      using calculateHandTotal_default by simp
  next
    case False
    with a show ?thesis
      using calculateHandTotal_fields by blast
  qed
next
  assume "cards hand = []"
  then show "calculateHandTotal hand = hand"
    by (simp add: calculateHandTotal_def)
qed (simp_all add: calculateHandTotal_example_soft calculateHandTotal_example_hard)

text \<open>
  The statement at the hand Ace, 6, 9 (raw total 26, one Ace, one reduction) and at the
  hand without cards.
\<close>

theorem hand_total_computed_witness:
  "length (cards (PlayerHand_default\<lparr>cards := [mk_card Ace Spades, mk_card Six Hearts, mk_card Nine Clubs]\<rparr>))
       \<le> 195225786
   \<and> cards (PlayerHand_default\<lparr>cards := [mk_card Ace Spades, mk_card Six Hearts, mk_card Nine Clubs]\<rparr>) \<noteq> []
   \<and> raw_total [mk_card Ace Spades, mk_card Six Hearts, mk_card Nine Clubs] = 26
   \<and> ace_count [mk_card Ace Spades, mk_card Six Hearts, mk_card Nine Clubs] = 1
   \<and> (\<exists>k. 0 \<le> k \<and> k \<le> (1::int) \<and> (\<forall>j. 0 \<le> j \<and> j < k \<longrightarrow> 26 - 10 * j > (21::int))
          \<and> (26 - 10 * k \<le> (21::int) \<or> k = 1)
          \<and> int (hand_total (calculateHandTotal
               (PlayerHand_default\<lparr>cards := [mk_card Ace Spades, mk_card Six Hearts, mk_card Nine Clubs]\<rparr>)))
             = 26 - 10 * k)
   \<and> length (cards PlayerHand_default) \<le> 195225786
   \<and> cards PlayerHand_default = []
   \<and> hand_total (calculateHandTotal PlayerHand_default) = 0
   \<and> \<not> is_soft (calculateHandTotal PlayerHand_default)
   \<and> \<not> is_busted (calculateHandTotal PlayerHand_default)
   \<and> \<not> is_blackjack (calculateHandTotal PlayerHand_default)
   \<and> calculateHandTotal PlayerHand_default = PlayerHand_default"
proof -
  let ?h = "PlayerHand_default\<lparr>cards := [mk_card Ace Spades, mk_card Six Hearts, mk_card Nine Clubs]\<rparr>"
  have c: "cards ?h = [mk_card Ace Spades, mk_card Six Hearts, mk_card Nine Clubs]"
    by simp
  have r: "raw_total [mk_card Ace Spades, mk_card Six Hearts, mk_card Nine Clubs] = 26"
    by (simp add: raw_total_def mk_card_def getValue_def)
  have a: "ace_count [mk_card Ace Spades, mk_card Six Hearts, mk_card Nine Clubs] = 1"
    by (simp add: ace_count_def mk_card_def)
  have e: "cards PlayerHand_default = []"
    by (simp add: PlayerHand_default_def)
  have r0: "raw_total (cards PlayerHand_default) = 0" and a0: "ace_count (cards PlayerHand_default) = 0"
    by (simp_all add: e raw_total_def ace_count_def)
  have ne: "cards ?h \<noteq> []"
    by simp
  have p: "length (cards ?h) \<le> 195225786 \<and> (cards ?h = [] \<longrightarrow> ?h = PlayerHand_default)"
    by simp
  have p0: "length (cards PlayerHand_default) \<le> 195225786
            \<and> (cards PlayerHand_default = [] \<longrightarrow> PlayerHand_default = PlayerHand_default)"
    by (simp add: e)
  have "\<exists>k. 0 \<le> k \<and> k \<le> ace_count (cards ?h)
           \<and> (\<forall>j. 0 \<le> j \<and> j < k \<longrightarrow> raw_total (cards ?h) - 10 * j > 21)
           \<and> (raw_total (cards ?h) - 10 * k \<le> 21 \<or> k = ace_count (cards ?h))
           \<and> int (hand_total (calculateHandTotal ?h)) = raw_total (cards ?h) - 10 * k
           \<and> is_soft (calculateHandTotal ?h) = (k < ace_count (cards ?h))
           \<and> is_busted (calculateHandTotal ?h) = (hand_total (calculateHandTotal ?h) > 21)
           \<and> is_blackjack (calculateHandTotal ?h) =
               (length (cards ?h) = 2 \<and> hand_total (calculateHandTotal ?h) = 21)"
    using hand_total_computed [of ?h, THEN conjunct1] p by (rule mp)
  then obtain k where "0 \<le> k" "k \<le> 1" "\<forall>j. 0 \<le> j \<and> j < k \<longrightarrow> 26 - 10 * j > (21::int)"
      "26 - 10 * k \<le> (21::int) \<or> k = 1"
      "int (hand_total (calculateHandTotal ?h)) = 26 - 10 * k"
    unfolding c r a by blast
  then have ex: "\<exists>k. 0 \<le> k \<and> k \<le> (1::int) \<and> (\<forall>j. 0 \<le> j \<and> j < k \<longrightarrow> 26 - 10 * j > (21::int))
          \<and> (26 - 10 * k \<le> (21::int) \<or> k = 1)
          \<and> int (hand_total (calculateHandTotal ?h)) = 26 - 10 * k"
    by blast
  have "\<exists>k. 0 \<le> k \<and> k \<le> ace_count (cards PlayerHand_default)
           \<and> (\<forall>j. 0 \<le> j \<and> j < k \<longrightarrow> raw_total (cards PlayerHand_default) - 10 * j > 21)
           \<and> (raw_total (cards PlayerHand_default) - 10 * k \<le> 21
                \<or> k = ace_count (cards PlayerHand_default))
           \<and> int (hand_total (calculateHandTotal PlayerHand_default))
                = raw_total (cards PlayerHand_default) - 10 * k
           \<and> is_soft (calculateHandTotal PlayerHand_default)
                = (k < ace_count (cards PlayerHand_default))
           \<and> is_busted (calculateHandTotal PlayerHand_default)
                = (hand_total (calculateHandTotal PlayerHand_default) > 21)
           \<and> is_blackjack (calculateHandTotal PlayerHand_default) =
               (length (cards PlayerHand_default) = 2
                \<and> hand_total (calculateHandTotal PlayerHand_default) = 21)"
    using hand_total_computed [of PlayerHand_default, THEN conjunct1] p0 by (rule mp)
  then obtain k0 where k0: "0 \<le> k0" "k0 \<le> 0"
      "int (hand_total (calculateHandTotal PlayerHand_default)) = 0 - 10 * k0"
      "is_soft (calculateHandTotal PlayerHand_default) = (k0 < 0)"
      "is_busted (calculateHandTotal PlayerHand_default)
         = (hand_total (calculateHandTotal PlayerHand_default) > 21)"
      "is_blackjack (calculateHandTotal PlayerHand_default) =
         (length (cards PlayerHand_default) = 2
          \<and> hand_total (calculateHandTotal PlayerHand_default) = 21)"
    unfolding r0 a0 by blast
  from k0(1,2) have kz: "k0 = 0" by simp
  have t0: "hand_total (calculateHandTotal PlayerHand_default) = 0"
    using k0(3) kz by simp
  have f0: "\<not> is_soft (calculateHandTotal PlayerHand_default)"
      "\<not> is_busted (calculateHandTotal PlayerHand_default)"
      "\<not> is_blackjack (calculateHandTotal PlayerHand_default)"
    using k0(4,5,6) kz t0 by simp_all
  have st: "calculateHandTotal PlayerHand_default = PlayerHand_default"
    using hand_total_computed [of PlayerHand_default, THEN conjunct2, THEN conjunct1] e by (rule mp)
  show ?thesis
    using p ne r a ex e t0 f0 st by simp
qed

section \<open>Properties of the hand state machine\<close>

text \<open>
  C4 (as amended). After every call of \<open>resetForNewShoe\<close> the player hands are replaced
  by one fresh hand without cards, the dealer upcard, the detected identities and the
  stability counters are cleared, the decision flag is off, and the game phase ends at
  \<open>NewShoe\<close>, having been \<open>WaitingForCards\<close> immediately before (after the call of
  \<open>startNewHand\<close>).
\<close>

theorem resetForNewShoe_clears:
  "resetForNewShoe_steps g = [startNewHand g, resetForNewShoe g]
   \<and> m_phase (startNewHand g) = WaitingForCards
   \<and> m_phase (resetForNewShoe g) = NewShoe
   \<and> m_playerHands (resetForNewShoe g) = [PlayerHand_default]
   \<and> cards PlayerHand_default = []
   \<and> m_currentHandIndex (resetForNewShoe g) = 0
   \<and> m_dealerUpcard (resetForNewShoe g) = None
   \<and> m_detectedCardIds (resetForNewShoe g) = []
   \<and> m_cardStability (resetForNewShoe g) = []
   \<and> \<not> m_decisionMade (resetForNewShoe g)"
  by (simp add: resetForNewShoe_steps_def resetForNewShoe_def startNewHand_def PlayerHand_default_def)

text \<open>
  The phase after \<open>resetForNewShoe\<close> on a newly constructed tracker is not
  \<open>WaitingForCards\<close>.
\<close>

theorem resetForNewShoe_phase_counterexample:
  "m_phase (resetForNewShoe (GameStateTracker_ctor 0)) \<noteq> WaitingForCards"
  by (simp add: resetForNewShoe_def startNewHand_def GameStateTracker_ctor_def)

section \<open>Properties of the betting engine\<close>

text \<open>
  C5 (the code at the failing input). With the default configuration (minimum bet 10,
  maximum 500, spread 1, 2, 4, 8, 12) a true count of 1/2 falls through to the last
  branch and is sized with 12 units, 120, while a true count of 1 is sized with 2 units,
  20: the bet is not monotone in the true count.
\<close>

theorem getCamouflageBet_not_monotone:
  "getCamouflageBet BettingStrategy_ctor (1 / 2) = 120
   \<and> getCamouflageBet BettingStrategy_ctor 1 = 20
   \<and> \<not> getCamouflageBet BettingStrategy_ctor (1 / 2) \<le> getCamouflageBet BettingStrategy_ctor 1"
  by (simp add: getCamouflageBet_def BettingStrategy_ctor_def Let_def)

section \<open>Properties of the strategy engine\<close>

lemma strategy_for_fields:
  "m_hardTotals (strategy_for rules) = hardTotals_chart"
  "m_softTotals (strategy_for rules) = softTotals_chart"
  "m_pairSplitting (strategy_for rules) = pairSplitting_chart"
  "\<not> m_deviationsEnabled (strategy_for rules)"
  "m_rules (strategy_for rules) = []"
  by (simp_all add: strategy_for_def BasicStrategy_initialize_def BasicStrategy_ctor_def
      buildStrategyTables_def)

lemma getAction_hard16_vs_10:
  "getAction (strategy_for rules) 16 Ten False canDouble False = Hit"
  by (simp add: getAction_def strategy_for_fields hardTotals_chart_def Let_def)

lemma getDeviationAction_disabled:
  "\<not> m_deviationsEnabled bs \<Longrightarrow>
   getDeviationAction bs playerTotal dealerUpcard trueCount =
     getAction bs playerTotal dealerUpcard False True False"
  by (simp add: getDeviationAction_def)

lemma getDeviationAction_enabled_16_vs_10:
  "m_deviationsEnabled bs \<Longrightarrow>
   getDeviationAction bs 16 Ten trueCount = (if trueCount \<ge> 0 then Stand else Hit)"
  by (simp add: getDeviationAction_def Let_def)

lemma getAction_double_denied:
  assumes "4 \<le> playerTotal" "playerTotal \<le> 21"
    and "2 \<le> dealer_column dealerUpcard" "dealer_column dealerUpcard \<le> 11"
    and "\<not> (canSplit \<and> m_pairSplitting bs (playerTotal div 2) (nat (dealer_column dealerUpcard)) = Split)"
    and "(if isSoft then m_softTotals bs playerTotal (nat (dealer_column dealerUpcard))
          else m_hardTotals bs playerTotal (nat (dealer_column dealerUpcard))) = Double"
  shows "getAction bs playerTotal dealerUpcard isSoft False canSplit = Hit"
  using assms by (auto simp: getAction_def dealer_column_def Let_def split: if_splits)

lemma getAction_double_denied_example:
  "getAction (strategy_for rules) 11 Six False True False = Double
   \<and> getAction (strategy_for rules) 11 Six False False False = Hit"
  by (simp add: getAction_def strategy_for_fields hardTotals_chart_def Let_def)

text \<open>
  C9 (the code at the failing input). The strategy object has its deviation flag false
  after construction and after \<open>initialize\<close> with any rule string, so
  \<open>getDeviationAction\<close> answers with the basic strategy: for 16 against a dealer Ten at a
  true count of 0.5 it returns Hit. With the flag true, as the member initialiser sets
  it, the same call returns Stand. At a true count of -0.5 it returns Hit, and \<open>getAction\<close>
  returns Hit for a hard 16 that is not a pair against a dealer Ten, whether or not
  doubling is allowed.
\<close>

theorem deviations_disabled_after_construction:
  "\<not> m_deviationsEnabled BasicStrategy_ctor
   \<and> \<not> m_deviationsEnabled (strategy_for rules)
   \<and> getDeviationAction (strategy_for rules) 16 Ten (1 / 2) = Hit
   \<and> getDeviationAction ((strategy_for rules)\<lparr>m_deviationsEnabled := True\<rparr>) 16 Ten (1 / 2) = Stand
   \<and> getDeviationAction (strategy_for rules) 16 Ten (- 1 / 2) = Hit
   \<and> getAction (strategy_for rules) 16 Ten False canDouble False = Hit"
proof (intro conjI)
  show "\<not> m_deviationsEnabled BasicStrategy_ctor"
    by (simp add: BasicStrategy_ctor_def buildStrategyTables_def)
next
  show "\<not> m_deviationsEnabled (strategy_for rules)"
    by (rule strategy_for_fields)
next
  show "getDeviationAction (strategy_for rules) 16 Ten (1 / 2) = Hit"
    by (simp add: getDeviationAction_disabled strategy_for_fields getAction_hard16_vs_10)
next
  show "getDeviationAction ((strategy_for rules)\<lparr>m_deviationsEnabled := True\<rparr>) 16 Ten (1 / 2) = Stand"
    by (simp add: getDeviationAction_enabled_16_vs_10)
next
  show "getDeviationAction (strategy_for rules) 16 Ten (- 1 / 2) = Hit"
    by (simp add: getDeviationAction_disabled strategy_for_fields getAction_hard16_vs_10)
next
  show "getAction (strategy_for rules) 16 Ten False canDouble False = Hit"
    by (rule getAction_hard16_vs_10)
qed

section \<open>Properties of the orchestrator\<close>

lemma resetCount_countedCards: "countedCards (resetCount adv) = countedCards adv"
  by (simp add: resetCount_def)

text \<open>
  C3 (the code at the failing input). \<open>resetCount\<close> leaves the set of counted identities
  as it is. In a fresh advisor the Two of Hearts (identity 1) is counted, the running
  count is 1; after \<open>resetCount\<close> the count is 0; the same identity detected again is not
  counted, the running count stays 0.
\<close>

theorem resetCount_keeps_dedup_state:
  "countedCards (resetCount adv) = countedCards adv
   \<and> getRunningCount (m_cardCounter (updateCardCount (RealtimeAdvisor_init 6 0) [detection_of 1])) = 1
   \<and> getRunningCount (m_cardCounter
        (resetCount (updateCardCount (RealtimeAdvisor_init 6 0) [detection_of 1]))) = 0
   \<and> getRunningCount (m_cardCounter
        (updateCardCount (resetCount (updateCardCount (RealtimeAdvisor_init 6 0) [detection_of 1]))
           [detection_of 1])) = 0"
  by (simp add: resetCount_def updateCardCount_def count_detection_def RealtimeAdvisor_init_def
      detection_of_def getRunningCount_def CardCounter_initialize_def CardCounter_reset_def
      addCard_def rank_of_id_def suit_of_id_def getHiLoValue_def wrap32_def u8_def u32_def Let_def)

section \<open>Properties of the shuffle detector\<close>

lemma triggerShuffleDetection_fields:
  "m_inventory (triggerShuffleDetection i s) = m_inventory s"
  "m_recentCards (triggerShuffleDetection i s) = m_recentCards s"
  "session_cards (triggerShuffleDetection i s) = session_cards s"
  "m_lastCardDetection (triggerShuffleDetection i s) = m_lastCardDetection s"
  "m_consecutiveEmptyFrames (triggerShuffleDetection i s) = m_consecutiveEmptyFrames s"
  "m_penetrationLimit (triggerShuffleDetection i s) = m_penetrationLimit s"
  "m_minCardsBeforeReset (triggerShuffleDetection i s) = m_minCardsBeforeReset s"
  "m_inactivityThresholdSec (triggerShuffleDetection i s) = m_inactivityThresholdSec s"
  "m_shuffleDetected (triggerShuffleDetection i s)"
  "m_lastIndicator (triggerShuffleDetection i s) = (if m_shuffleDetected s then m_lastIndicator s else i)"
  by (simp_all add: triggerShuffleDetection_def)

lemma checkDuplicateCard_fields:
  "m_inventory (checkDuplicateCard n s) = m_inventory s"
  "m_recentCards (checkDuplicateCard n s) = m_recentCards s"
  "session_cards (checkDuplicateCard n s) = session_cards s"
  "m_lastCardDetection (checkDuplicateCard n s) = m_lastCardDetection s"
  "m_consecutiveEmptyFrames (checkDuplicateCard n s) = m_consecutiveEmptyFrames s"
  "m_penetrationLimit (checkDuplicateCard n s) = m_penetrationLimit s"
  "m_minCardsBeforeReset (checkDuplicateCard n s) = m_minCardsBeforeReset s"
  "m_inactivityThresholdSec (checkDuplicateCard n s) = m_inactivityThresholdSec s"
  by (simp_all add: checkDuplicateCard_def triggerShuffleDetection_fields)

lemma checkDuplicateCard_flags:
  "m_shuffleDetected (checkDuplicateCard n s) =
     (m_shuffleDetected s \<or> dup_in_frame (m_recentCards s) [n])"
  "m_lastIndicator (checkDuplicateCard n s) =
     (if \<not> m_shuffleDetected s \<and> dup_in_frame (m_recentCards s) [n] then DuplicateCard
      else m_lastIndicator s)"
  by (auto simp: checkDuplicateCard_def triggerShuffleDetection_fields list_ex_iff)

lemma process_detection_fields:
  "m_recentCards (process_detection s n) = push_recent (m_recentCards s) n"
  "m_lastCardDetection (process_detection s n) = m_lastCardDetection s"
  "m_consecutiveEmptyFrames (process_detection s n) = m_consecutiveEmptyFrames s"
  "m_penetrationLimit (process_detection s n) = m_penetrationLimit s"
  "m_minCardsBeforeReset (process_detection s n) = m_minCardsBeforeReset s"
  "m_inactivityThresholdSec (process_detection s n) = m_inactivityThresholdSec s"
  "m_shuffleDetected (process_detection s n) = m_shuffleDetected (checkDuplicateCard n s)"
  "m_lastIndicator (process_detection s n) = m_lastIndicator (checkDuplicateCard n s)"
  by (simp_all add: process_detection_def Let_def checkDuplicateCard_fields)

lemma process_detection_inventory:
  "m_inventory (process_detection s n) =
     (if n \<notin> session_cards s then fst (CardInventory_addCard (m_inventory s) n) else m_inventory s)"
  "session_cards (process_detection s n) = insert n (session_cards s)"
  by (auto simp: process_detection_def Let_def checkDuplicateCard_fields)

lemma detection_loop_fields:
  "m_lastCardDetection (foldl process_detection s ns) = m_lastCardDetection s"
  "m_consecutiveEmptyFrames (foldl process_detection s ns) = m_consecutiveEmptyFrames s"
  "m_penetrationLimit (foldl process_detection s ns) = m_penetrationLimit s"
  "m_minCardsBeforeReset (foldl process_detection s ns) = m_minCardsBeforeReset s"
  "m_inactivityThresholdSec (foldl process_detection s ns) = m_inactivityThresholdSec s"
  by (induction ns arbitrary: s) (simp_all add: process_detection_fields)

lemma detection_loop_flags:
  "m_shuffleDetected (foldl process_detection s ns) =
     (m_shuffleDetected s \<or> dup_in_frame (m_recentCards s) ns)
   \<and> m_lastIndicator (foldl process_detection s ns) =
     (if \<not> m_shuffleDetected s \<and> dup_in_frame (m_recentCards s) ns then DuplicateCard
      else m_lastIndicator s)"
proof (induction ns arbitrary: s)
  case Nil
  show ?case by simp
next
  case (Cons n ns)
  let ?s1 = "process_detection s n"
  have d: "m_shuffleDetected ?s1 = (m_shuffleDetected s \<or> dup_in_frame (m_recentCards s) [n])"
    by (simp only: process_detection_fields checkDuplicateCard_flags)
  have i: "m_lastIndicator ?s1 =
      (if \<not> m_shuffleDetected s \<and> dup_in_frame (m_recentCards s) [n] then DuplicateCard
       else m_lastIndicator s)"
    by (simp only: process_detection_fields checkDuplicateCard_flags)
  have r: "m_recentCards ?s1 = push_recent (m_recentCards s) n"
    by (simp only: process_detection_fields)
  have ih: "m_shuffleDetected (foldl process_detection ?s1 ns) =
      (m_shuffleDetected ?s1 \<or> dup_in_frame (m_recentCards ?s1) ns)
    \<and> m_lastIndicator (foldl process_detection ?s1 ns) =
      (if \<not> m_shuffleDetected ?s1 \<and> dup_in_frame (m_recentCards ?s1) ns then DuplicateCard
       else m_lastIndicator ?s1)"
    by (rule Cons.IH)
  show ?case
    unfolding foldl_Cons using ih unfolding d i r by auto
qed

lemma checks_inventory:
  "m_inventory (checkCardDepletion s) = m_inventory s"
  "m_inventory (checkPenetration s) = m_inventory s"
  "m_inventory (checkInactivity t s) = m_inventory s"
  "m_inventory (checkCardDisappearance s) = m_inventory s"
  "m_inventory (checkImpossibleSequence s) = m_inventory s"
  by (simp_all add: checkCardDepletion_def checkPenetration_def checkInactivity_def
      checkCardDisappearance_def checkImpossibleSequence_def triggerShuffleDetection_fields Let_def)

lemma checks_session:
  "session_cards (checkCardDepletion s) = session_cards s"
  "session_cards (checkPenetration s) = session_cards s"
  "session_cards (checkInactivity t s) = session_cards s"
  "session_cards (checkCardDisappearance s) = session_cards s"
  "session_cards (checkImpossibleSequence s) = session_cards s"
  by (simp_all add: checkCardDepletion_def checkPenetration_def checkInactivity_def
      checkCardDisappearance_def checkImpossibleSequence_def triggerShuffleDetection_fields Let_def)

lemma checks_config:
  "m_penetrationLimit (checkCardDepletion s) = m_penetrationLimit s"
  "m_minCardsBeforeReset (checkCardDepletion s) = m_minCardsBeforeReset s"
  "m_inactivityThresholdSec (checkCardDepletion s) = m_inactivityThresholdSec s"
  "m_lastCardDetection (checkCardDepletion s) = m_lastCardDetection s"
  "m_consecutiveEmptyFrames (checkCardDepletion s) = m_consecutiveEmptyFrames s"
  "m_penetrationLimit (checkPenetration s) = m_penetrationLimit s"
  "m_minCardsBeforeReset (checkPenetration s) = m_minCardsBeforeReset s"
  "m_inactivityThresholdSec (checkPenetration s) = m_inactivityThresholdSec s"
  "m_lastCardDetection (checkPenetration s) = m_lastCardDetection s"
  "m_consecutiveEmptyFrames (checkPenetration s) = m_consecutiveEmptyFrames s"
  "m_penetrationLimit (checkInactivity t s) = m_penetrationLimit s"
  "m_minCardsBeforeReset (checkInactivity t s) = m_minCardsBeforeReset s"
  "m_inactivityThresholdSec (checkInactivity t s) = m_inactivityThresholdSec s"
  "m_lastCardDetection (checkInactivity t s) = m_lastCardDetection s"
  "m_consecutiveEmptyFrames (checkInactivity t s) = m_consecutiveEmptyFrames s"
  "m_penetrationLimit (checkCardDisappearance s) = m_penetrationLimit s"
  "m_minCardsBeforeReset (checkCardDisappearance s) = m_minCardsBeforeReset s"
  "m_inactivityThresholdSec (checkCardDisappearance s) = m_inactivityThresholdSec s"
  "m_lastCardDetection (checkCardDisappearance s) = m_lastCardDetection s"
  by (simp_all add: checkCardDepletion_def checkPenetration_def checkInactivity_def
      checkCardDisappearance_def triggerShuffleDetection_fields Let_def)

lemma checks_flags:
  "m_lastIndicator (checkCardDepletion s) =
     (if \<not> m_shuffleDetected s \<and> isImpossible (m_inventory s) then CardDepletion
      else m_lastIndicator s)"
  "m_shuffleDetected (checkCardDepletion s) = (m_shuffleDetected s \<or> isImpossible (m_inventory s))"
  "m_lastIndicator (checkPenetration s) =
     (if \<not> m_shuffleDetected s
         \<and> total_cards_seen (m_inventory s) \<ge> int_to_u32 (m_minCardsBeforeReset s)
         \<and> hasReachedPenetrationLimit (m_inventory s) (m_penetrationLimit s)
      then PenetrationReached else m_lastIndicator s)"
  "m_shuffleDetected (checkPenetration s) =
     (m_shuffleDetected s
      \<or> total_cards_seen (m_inventory s) \<ge> int_to_u32 (m_minCardsBeforeReset s)
         \<and> hasReachedPenetrationLimit (m_inventory s) (m_penetrationLimit s))"
  "m_lastIndicator (checkInactivity t s) =
     (if \<not> m_shuffleDetected s
         \<and> total_cards_seen (m_inventory s) \<ge> int_to_u32 (m_minCardsBeforeReset s)
         \<and> getTimeSinceLastCard t s \<ge> m_inactivityThresholdSec s
      then LongPause else m_lastIndicator s)"
  "m_shuffleDetected (checkInactivity t s) =
     (m_shuffleDetected s
      \<or> total_cards_seen (m_inventory s) \<ge> int_to_u32 (m_minCardsBeforeReset s)
         \<and> getTimeSinceLastCard t s \<ge> m_inactivityThresholdSec s)"
  "m_lastIndicator (checkCardDisappearance s) =
     (if \<not> m_shuffleDetected s
         \<and> m_consecutiveEmptyFrames s \<ge> EMPTY_FRAMES_THRESHOLD
         \<and> total_cards_seen (m_inventory s) \<ge> int_to_u32 (m_minCardsBeforeReset s)
      then AllCardsGone else m_lastIndicator s)"
  "m_lastIndicator (checkImpossibleSequence s) = m_lastIndicator s"
  by (auto simp: checkCardDepletion_def checkPenetration_def checkInactivity_def
      checkCardDisappearance_def checkImpossibleSequence_def triggerShuffleDetection_fields Let_def
      not_less)

lemma getTimeSinceLastCard_cong:
  "m_lastCardDetection s = m_lastCardDetection s' \<Longrightarrow>
   getTimeSinceLastCard t s = getTimeSinceLastCard t s'"
  by (simp add: getTimeSinceLastCard_def)
lemma update_inventory:
  "m_inventory (ShuffleDetector_update s fr) =
     m_inventory (foldl process_detection s (map card_id (detections fr)))"
proof -
  have e: "m_inventory (foldl process_detection (s\<lparr>m_lastCardDetection := a, m_consecutiveEmptyFrames := b\<rparr>) ns)
           = m_inventory (foldl process_detection s ns)
         \<and> session_cards (foldl process_detection (s\<lparr>m_lastCardDetection := a, m_consecutiveEmptyFrames := b\<rparr>) ns)
           = session_cards (foldl process_detection s ns)" for a b ns
  proof (induction ns rule: rev_induct)
    case Nil
    show ?case by simp
  next
    case (snoc n ns)
    then show ?case by (simp add: process_detection_inventory)
  qed
  have e': "m_inventory (foldl process_detection (s\<lparr>m_consecutiveEmptyFrames := b\<rparr>) ns)
           = m_inventory (foldl process_detection s ns)" for b ns
    using e [where a = "m_lastCardDetection s" and b = b and ns = ns] by simp
  show ?thesis
    by (simp add: ShuffleDetector_update_def Let_def checks_inventory e e')
qed

lemma update_lastIndicator:
  assumes nd: "\<not> m_shuffleDetected s"
  shows "m_lastIndicator (ShuffleDetector_update s fr) =
     (if dup_in_frame (m_recentCards s) (map card_id (detections fr)) then DuplicateCard
      else if isImpossible (m_inventory (ShuffleDetector_update s fr)) then CardDepletion
      else if total_cards_seen (m_inventory (ShuffleDetector_update s fr))
                \<ge> int_to_u32 (m_minCardsBeforeReset s)
              \<and> hasReachedPenetrationLimit (m_inventory (ShuffleDetector_update s fr))
                   (m_penetrationLimit s)
           then PenetrationReached
      else if total_cards_seen (m_inventory (ShuffleDetector_update s fr))
                \<ge> int_to_u32 (m_minCardsBeforeReset s)
              \<and> duration_seconds (now_check fr -
                    (if detections fr \<noteq> [] then now_entry fr else m_lastCardDetection s))
                  \<ge> m_inactivityThresholdSec s
           then LongPause
      else if detections fr = []
              \<and> u32 (m_consecutiveEmptyFrames s + 1) \<ge> EMPTY_FRAMES_THRESHOLD
              \<and> total_cards_seen (m_inventory (ShuffleDetector_update s fr))
                  \<ge> int_to_u32 (m_minCardsBeforeReset s)
           then AllCardsGone
      else m_lastIndicator s)"
proof -
  let ?ns = "map card_id (detections fr)"
  define s0 where "s0 =
    (if detections fr \<noteq> []
     then s\<lparr>m_lastCardDetection := now_entry fr, m_consecutiveEmptyFrames := 0\<rparr>
     else s\<lparr>m_consecutiveEmptyFrames := u32 (m_consecutiveEmptyFrames s + 1)\<rparr>)"
  define s1 where "s1 = foldl process_detection s0 ?ns"
  define s2 where "s2 = checkCardDepletion s1"
  define s3 where "s3 = checkPenetration s2"
  define s4 where "s4 = checkInactivity (now_check fr) s3"
  define s5 where "s5 = checkCardDisappearance s4"
  have upd: "ShuffleDetector_update s fr =
      (checkImpossibleSequence s5)\<lparr>m_previousFrameCardCount := u32 (length (detections fr)),
                                    m_previousFrameCards := ?ns\<rparr>"
    by (simp add: ShuffleDetector_update_def Let_def s0_def s1_def s2_def s3_def s4_def s5_def)
  have s0f: "\<not> m_shuffleDetected s0" "m_lastIndicator s0 = m_lastIndicator s"
      "m_recentCards s0 = m_recentCards s"
      "m_minCardsBeforeReset s0 = m_minCardsBeforeReset s"
      "m_penetrationLimit s0 = m_penetrationLimit s"
      "m_inactivityThresholdSec s0 = m_inactivityThresholdSec s"
      "m_lastCardDetection s0 = (if detections fr \<noteq> [] then now_entry fr else m_lastCardDetection s)"
      "m_consecutiveEmptyFrames s0 =
         (if detections fr \<noteq> [] then 0 else u32 (m_consecutiveEmptyFrames s + 1))"
    using nd by (simp_all add: s0_def)
  have inv: "m_inventory s2 = m_inventory s1" "m_inventory s3 = m_inventory s1"
      "m_inventory s4 = m_inventory s1"
    by (simp_all add: s4_def s3_def s2_def checks_inventory)
  have invU: "m_inventory (ShuffleDetector_update s fr) = m_inventory s1"
    by (simp add: upd s5_def s4_def s3_def s2_def checks_inventory)
  have cfg1: "m_minCardsBeforeReset s1 = m_minCardsBeforeReset s"
      "m_penetrationLimit s1 = m_penetrationLimit s"
      "m_inactivityThresholdSec s1 = m_inactivityThresholdSec s"
      "m_lastCardDetection s1 = m_lastCardDetection s0"
      "m_consecutiveEmptyFrames s1 = m_consecutiveEmptyFrames s0"
    by (simp_all add: s1_def detection_loop_fields s0f)
  have cfg: "m_minCardsBeforeReset s2 = m_minCardsBeforeReset s"
      "m_penetrationLimit s2 = m_penetrationLimit s"
      "m_minCardsBeforeReset s3 = m_minCardsBeforeReset s"
      "m_inactivityThresholdSec s3 = m_inactivityThresholdSec s"
      "m_lastCardDetection s3 = m_lastCardDetection s0"
      "m_minCardsBeforeReset s4 = m_minCardsBeforeReset s"
      "m_consecutiveEmptyFrames s4 = m_consecutiveEmptyFrames s0"
    by (simp_all add: s4_def s3_def s2_def checks_config cfg1)
  have f1: "m_shuffleDetected s1 = dup_in_frame (m_recentCards s) ?ns"
      "m_lastIndicator s1 = (if dup_in_frame (m_recentCards s) ?ns then DuplicateCard
                             else m_lastIndicator s)"
    using detection_loop_flags [of s0 ?ns] s0f by (simp_all add: s1_def)
  have time: "getTimeSinceLastCard (now_check fr) s3 =
      duration_seconds (now_check fr -
         (if detections fr \<noteq> [] then now_entry fr else m_lastCardDetection s))"
    by (simp add: getTimeSinceLastCard_def cfg s0f)
  have f2: "m_shuffleDetected s2 = (m_shuffleDetected s1 \<or> isImpossible (m_inventory s1))"
      "m_lastIndicator s2 = (if \<not> m_shuffleDetected s1 \<and> isImpossible (m_inventory s1)
                             then CardDepletion else m_lastIndicator s1)"
    by (simp_all only: s2_def checks_flags)
  have f3: "m_shuffleDetected s3 =
        (m_shuffleDetected s2
         \<or> total_cards_seen (m_inventory s1) \<ge> int_to_u32 (m_minCardsBeforeReset s)
            \<and> hasReachedPenetrationLimit (m_inventory s1) (m_penetrationLimit s))"
      "m_lastIndicator s3 =
        (if \<not> m_shuffleDetected s2
            \<and> total_cards_seen (m_inventory s1) \<ge> int_to_u32 (m_minCardsBeforeReset s)
            \<and> hasReachedPenetrationLimit (m_inventory s1) (m_penetrationLimit s)
         then PenetrationReached else m_lastIndicator s2)"
    by (simp_all add: s3_def checks_flags inv cfg)
  have f4: "m_shuffleDetected s4 =
        (m_shuffleDetected s3
         \<or> total_cards_seen (m_inventory s1) \<ge> int_to_u32 (m_minCardsBeforeReset s)
            \<and> getTimeSinceLastCard (now_check fr) s3 \<ge> m_inactivityThresholdSec s)"
      "m_lastIndicator s4 =
        (if \<not> m_shuffleDetected s3
            \<and> total_cards_seen (m_inventory s1) \<ge> int_to_u32 (m_minCardsBeforeReset s)
            \<and> getTimeSinceLastCard (now_check fr) s3 \<ge> m_inactivityThresholdSec s
         then LongPause else m_lastIndicator s3)"
    by (simp_all add: s4_def checks_flags inv cfg)
  have f5: "m_lastIndicator s5 =
        (if \<not> m_shuffleDetected s4
            \<and> m_consecutiveEmptyFrames s0 \<ge> EMPTY_FRAMES_THRESHOLD
            \<and> total_cards_seen (m_inventory s1) \<ge> int_to_u32 (m_minCardsBeforeReset s)
         then AllCardsGone else m_lastIndicator s4)"
    by (simp add: s5_def checks_flags inv cfg)
  have thr: "(m_consecutiveEmptyFrames s0 \<ge> EMPTY_FRAMES_THRESHOLD) =
        (detections fr = [] \<and> u32 (m_consecutiveEmptyFrames s + 1) \<ge> EMPTY_FRAMES_THRESHOLD)"
    by (simp add: s0f EMPTY_FRAMES_THRESHOLD_def)
  have "m_lastIndicator (ShuffleDetector_update s fr) = m_lastIndicator s5"
    by (simp add: upd checks_flags)
  then show ?thesis
    unfolding f5 f4 f3 f2 f1 thr time invU by auto
qed

lemma update_sticky:
  assumes "m_shuffleDetected s"
  shows "m_lastIndicator (ShuffleDetector_update s fr) = m_lastIndicator s
         \<and> m_shuffleDetected (ShuffleDetector_update s fr)"
proof -
  have loop: "m_shuffleDetected s' \<Longrightarrow>
      m_shuffleDetected (foldl process_detection s' ns)
      \<and> m_lastIndicator (foldl process_detection s' ns) = m_lastIndicator s'" for s' ns
    using detection_loop_flags [of s' ns] by simp
  have trig: "m_shuffleDetected s' \<Longrightarrow> triggerShuffleDetection i s' = s'" for s' i
    by (simp add: triggerShuffleDetection_def)
  have chk: "m_shuffleDetected s' \<Longrightarrow>
      m_shuffleDetected (checkCardDisappearance (checkInactivity t (checkPenetration (checkCardDepletion s'))))
      \<and> m_lastIndicator (checkCardDisappearance (checkInactivity t (checkPenetration (checkCardDepletion s'))))
          = m_lastIndicator s'" for s' t
    by (simp add: checkCardDepletion_def checkPenetration_def checkInactivity_def
        checkCardDisappearance_def trig Let_def)
  let ?s0 = "(if detections fr \<noteq> []
     then s\<lparr>m_lastCardDetection := now_entry fr, m_consecutiveEmptyFrames := 0\<rparr>
     else s\<lparr>m_consecutiveEmptyFrames := u32 (m_consecutiveEmptyFrames s + 1)\<rparr>)"
  have s0: "m_shuffleDetected ?s0" "m_lastIndicator ?s0 = m_lastIndicator s"
    using assms by simp_all
  from loop [OF s0(1), of "map card_id (detections fr)"] chk s0(2)
  show ?thesis
    by (simp add: ShuffleDetector_update_def Let_def checkImpossibleSequence_def)
qed

text \<open>
  C1 (as amended). In an update that starts with no shuffle detected, the duplicate check
  is made first, for each detection of the frame during the card loop; after the loop the
  other four are evaluated in the order CardDepletion, PenetrationReached, LongPause,
  AllCardsGone, on the inventory as the frame left it. Afterwards \<open>getLastIndicator\<close> holds
  the first indicator in the order DuplicateCard, CardDepletion, PenetrationReached,
  LongPause, AllCardsGone whose condition held, and is unchanged if none held. In an
  update that starts with a shuffle already detected the indicator is unchanged.
\<close>

theorem indicator_priority:
  "(\<not> isShuffleDetected s \<longrightarrow>
     getLastIndicator (ShuffleDetector_update s fr) =
       (if dup_in_frame (m_recentCards s) (map card_id (detections fr)) then DuplicateCard
        else if isImpossible (m_inventory (ShuffleDetector_update s fr)) then CardDepletion
        else if total_cards_seen (m_inventory (ShuffleDetector_update s fr))
                  \<ge> int_to_u32 (m_minCardsBeforeReset s)
                \<and> hasReachedPenetrationLimit (m_inventory (ShuffleDetector_update s fr))
                     (m_penetrationLimit s)
             then PenetrationReached
        else if total_cards_seen (m_inventory (ShuffleDetector_update s fr))
                  \<ge> int_to_u32 (m_minCardsBeforeReset s)
                \<and> duration_seconds (now_check fr -
                      (if detections fr \<noteq> [] then now_entry fr else m_lastCardDetection s))
                    \<ge> m_inactivityThresholdSec s
             then LongPause
        else if detections fr = []
                \<and> u32 (m_consecutiveEmptyFrames s + 1) \<ge> EMPTY_FRAMES_THRESHOLD
                \<and> total_cards_seen (m_inventory (ShuffleDetector_update s fr))
                    \<ge> int_to_u32 (m_minCardsBeforeReset s)
             then AllCardsGone
        else getLastIndicator s))
   \<and> (isShuffleDetected s \<longrightarrow>
        getLastIndicator (ShuffleDetector_update s fr) = getLastIndicator s)"
  unfolding isShuffleDetected_def getLastIndicator_def
  using update_lastIndicator [of s fr] update_sticky [of s fr] by blast
lemma update_unfold:
  "ShuffleDetector_update s fr =
     (checkImpossibleSequence (checkCardDisappearance (checkInactivity (now_check fr)
        (checkPenetration (checkCardDepletion
          (foldl process_detection
             (if detections fr \<noteq> []
              then s\<lparr>m_lastCardDetection := now_entry fr, m_consecutiveEmptyFrames := 0\<rparr>
              else s\<lparr>m_consecutiveEmptyFrames := u32 (m_consecutiveEmptyFrames s + 1)\<rparr>)
             (map card_id (detections fr))))))))
     \<lparr>m_previousFrameCardCount := u32 (length (detections fr)),
      m_previousFrameCards := map card_id (detections fr)\<rparr>"
  by (simp add: ShuffleDetector_update_def Let_def)

lemma sum_list_le_length:
  fixes xs :: "nat list"
  shows "\<forall>x \<in> set xs. x \<le> 1 \<Longrightarrow> sum_list xs \<le> length xs"
  by (induction xs) auto

lemma once_each_bounds:
  assumes "once_each s"
  shows "total_cards_seen (m_inventory s) \<le> 52"
    and "\<forall>count \<in> set (cards_seen (m_inventory s)). count \<le> 1"
proof -
  let ?cs = "cards_seen (m_inventory s)"
  have len: "length ?cs = 52" and le: "\<forall>i<52. ?cs ! i \<le> 1"
      and tot: "total_cards_seen (m_inventory s) = sum_list ?cs"
    using assms by (simp_all add: once_each_def)
  show all: "\<forall>count \<in> set ?cs. count \<le> 1"
    using le len by (simp add: all_set_conv_all_nth)
  from sum_list_le_length [OF all] show "total_cards_seen (m_inventory s) \<le> 52"
    by (simp add: tot len)
qed

lemma once_each_initialize: "once_each (ShuffleDetector_initialize d plim s0)"
  by (simp add: once_each_def ShuffleDetector_initialize_def CardInventory_reset_def)

lemma once_each_process_detection:
  assumes oe: "once_each s"
  shows "once_each (process_detection s n)"
proof (cases "n \<notin> session_cards s \<and> n < 52")
  case False
  then have "m_inventory (process_detection s n) = m_inventory s"
    by (auto simp: process_detection_inventory CardInventory_addCard_def)
  then show ?thesis
    using oe by (auto simp: once_each_def process_detection_inventory)
next
  case True
  let ?cs = "cards_seen (m_inventory s)"
  have len: "length ?cs = 52" and le: "\<forall>i<52. ?cs ! i \<le> 1"
      and mem: "\<forall>i<52. ?cs ! i = 1 \<longrightarrow> i \<in> session_cards s"
      and tot: "total_cards_seen (m_inventory s) = sum_list ?cs"
    using oe by (simp_all add: once_each_def)
  have zero: "?cs ! n = 0"
  proof -
    from True le have "?cs ! n \<le> 1" by blast
    moreover from True mem have "?cs ! n \<noteq> 1" by blast
    ultimately show ?thesis by simp
  qed
  have small: "total_cards_seen (m_inventory s) \<le> 52"
    using once_each_bounds(1) [OF oe] .
  have iv: "m_inventory (process_detection s n) =
      (m_inventory s)\<lparr>cards_seen := ?cs[n := 1],
                       total_cards_seen := total_cards_seen (m_inventory s) + 1\<rparr>"
    using True small
    by (simp add: process_detection_inventory CardInventory_addCard_def zero u8_def u32_def)
  have sum: "sum_list (?cs[n := 1]) = sum_list ?cs + 1"
    using True len zero by (simp add: sum_list_update)
  have nth: "(?cs[n := 1]) ! i = (if i = n then 1 else ?cs ! i)" if "i < 52" for i
    using that len by (simp add: nth_list_update)
  show ?thesis
    unfolding once_each_def iv process_detection_inventory(2)
    using len le mem tot sum nth by auto
qed

lemma once_each_detection_loop:
  "once_each s \<Longrightarrow> once_each (foldl process_detection s ns)"
  by (induction ns arbitrary: s) (simp_all add: once_each_process_detection)

lemma once_each_cong:
  "m_inventory s' = m_inventory s \<Longrightarrow> session_cards s' = session_cards s \<Longrightarrow>
   once_each s \<Longrightarrow> once_each s'"
  by (simp add: once_each_def)

lemma once_each_update:
  assumes "once_each s"
  shows "once_each (ShuffleDetector_update s fr)"
proof -
  let ?s0 = "(if detections fr \<noteq> []
     then s\<lparr>m_lastCardDetection := now_entry fr, m_consecutiveEmptyFrames := 0\<rparr>
     else s\<lparr>m_consecutiveEmptyFrames := u32 (m_consecutiveEmptyFrames s + 1)\<rparr>)"
  let ?s1 = "foldl process_detection ?s0 (map card_id (detections fr))"
  have "once_each ?s0"
    using assms by (simp add: once_each_def)
  then have 1: "once_each ?s1"
    by (rule once_each_detection_loop)
  have "m_inventory (ShuffleDetector_update s fr) = m_inventory ?s1"
       "session_cards (ShuffleDetector_update s fr) = session_cards ?s1"
    unfolding update_unfold by (simp_all add: checks_inventory checks_session)
  then show ?thesis
    using 1 by (rule once_each_cong)
qed

lemma once_each_updates: "once_each s \<Longrightarrow> once_each (updates s frs)"
  unfolding updates_def by (induction frs arbitrary: s) (simp_all add: once_each_update)

lemma addCard_deck_count:
  "deck_count (fst (CardInventory_addCard iv n)) = deck_count iv"
  by (simp add: CardInventory_addCard_def)

lemma detection_loop_deck_count:
  "deck_count (m_inventory (foldl process_detection s ns)) = deck_count (m_inventory s)"
  by (induction ns arbitrary: s) (simp_all add: process_detection_inventory addCard_deck_count)

lemma update_config:
  "deck_count (m_inventory (ShuffleDetector_update s fr)) = deck_count (m_inventory s)"
  "m_penetrationLimit (ShuffleDetector_update s fr) = m_penetrationLimit s"
proof -
  show "deck_count (m_inventory (ShuffleDetector_update s fr)) = deck_count (m_inventory s)"
    unfolding update_inventory by (simp add: detection_loop_deck_count)
  show "m_penetrationLimit (ShuffleDetector_update s fr) = m_penetrationLimit s"
    unfolding update_unfold
    by (simp add: checkImpossibleSequence_def checks_config detection_loop_fields)
qed

lemma updates_config:
  "deck_count (m_inventory (updates s frs)) = deck_count (m_inventory s)"
  "m_penetrationLimit (updates s frs) = m_penetrationLimit s"
  unfolding updates_def by (induction frs arbitrary: s) (simp_all add: update_config)

lemma once_each_possible:
  assumes oe: "once_each s" and d: "1 \<le> deck_count (m_inventory s)"
    and w: "52 \<le> u32 (deck_count (m_inventory s) * 52)"
  shows "\<not> isImpossible (m_inventory s)"
proof -
  have "\<forall>count \<in> set (cards_seen (m_inventory s)). \<not> count > deck_count (m_inventory s)"
    using once_each_bounds(2) [OF oe] d by fastforce
  then have "\<not> list_ex (\<lambda>count. count > deck_count (m_inventory s)) (cards_seen (m_inventory s))"
    by (simp add: list_ex_iff)
  moreover have "\<not> total_cards_seen (m_inventory s) > u32 (deck_count (m_inventory s) * 52)"
    using once_each_bounds(1) [OF oe] w by linarith
  ultimately show ?thesis
    by (simp add: isImpossible_def Let_def)
qed

lemma update_indicator_cases:
  "m_lastIndicator (ShuffleDetector_update s fr) = m_lastIndicator s
   \<or> m_lastIndicator (ShuffleDetector_update s fr) = DuplicateCard
   \<or> m_lastIndicator (ShuffleDetector_update s fr) = CardDepletion
        \<and> isImpossible (m_inventory (ShuffleDetector_update s fr))
   \<or> m_lastIndicator (ShuffleDetector_update s fr) = PenetrationReached
        \<and> hasReachedPenetrationLimit (m_inventory (ShuffleDetector_update s fr)) (m_penetrationLimit s)
   \<or> m_lastIndicator (ShuffleDetector_update s fr) = LongPause
   \<or> m_lastIndicator (ShuffleDetector_update s fr) = AllCardsGone"
proof (cases "m_shuffleDetected s")
  case True
  then show ?thesis using update_sticky [of s fr] by simp
next
  case False
  show ?thesis
    by (subst (1 2 3 4 5 6) update_lastIndicator [OF False]) (simp split: if_splits)
qed

lemma no_depletion_update:
  assumes oe: "once_each s" and d: "1 \<le> deck_count (m_inventory s)"
    and w: "52 \<le> u32 (deck_count (m_inventory s) * 52)"
    and n: "m_lastIndicator s \<noteq> CardDepletion"
  shows "m_lastIndicator (ShuffleDetector_update s fr) \<noteq> CardDepletion"
proof -
  have "\<not> isImpossible (m_inventory (ShuffleDetector_update s fr))"
    using once_each_update [OF oe, of fr] d w
    by (intro once_each_possible) (simp_all add: update_config)
  then show ?thesis
    using update_indicator_cases [of s fr] n by auto
qed

lemma no_depletion_updates:
  "once_each s \<Longrightarrow> 1 \<le> deck_count (m_inventory s) \<Longrightarrow>
   52 \<le> u32 (deck_count (m_inventory s) * 52) \<Longrightarrow> m_lastIndicator s \<noteq> CardDepletion \<Longrightarrow>
   m_lastIndicator (updates s frs) \<noteq> CardDepletion"
proof (induction frs arbitrary: s)
  case Nil
  then show ?case by (simp add: updates_def)
next
  case (Cons fr frs)
  have "m_lastIndicator (updates (ShuffleDetector_update s fr) frs) \<noteq> CardDepletion"
    using Cons.prems
    by (intro Cons.IH once_each_update no_depletion_update) (simp_all add: update_config)
  then show ?case by (simp add: updates_def)
qed

lemma initialize_fields:
  "deck_count (m_inventory (ShuffleDetector_initialize d plim s0)) = d"
  "m_penetrationLimit (ShuffleDetector_initialize d plim s0) = plim"
  "m_lastIndicator (ShuffleDetector_initialize d plim s0) = m_lastIndicator s0"
  by (simp_all add: ShuffleDetector_initialize_def CardInventory_reset_def)

text \<open>
  C10 (as amended). For every deck count of at least 1 whose product with 52, as a
  32-bit unsigned integer, is at least 52 (every deck count from 1 to 82,595,524, where
  the product does not wrap, is one), and every sequence of updates after
  \<open>initialize\<close>: every per-identity count of the inventory is at most 1, the total is at
  most 52, \<open>isImpossible\<close> is false, and the indicator is not CardDepletion unless it
  already was before \<open>initialize\<close>.
\<close>

theorem inventory_once_per_identity:
  "1 \<le> d \<and> 52 \<le> u32 (d * 52) \<longrightarrow>
     (\<forall>i < 52. cards_seen (m_inventory (updates (ShuffleDetector_initialize d plim s0) frs)) ! i \<le> 1)
     \<and> total_cards_seen (m_inventory (updates (ShuffleDetector_initialize d plim s0) frs)) \<le> 52
     \<and> \<not> isImpossible (m_inventory (updates (ShuffleDetector_initialize d plim s0) frs))
     \<and> (getLastIndicator s0 \<noteq> CardDepletion \<longrightarrow>
          getLastIndicator (updates (ShuffleDetector_initialize d plim s0) frs) \<noteq> CardDepletion)"
proof (intro impI)
  assume a: "1 \<le> d \<and> 52 \<le> u32 (d * 52)"
  let ?s = "ShuffleDetector_initialize d plim s0"
  have oe: "once_each (updates ?s frs)"
    by (intro once_each_updates once_each_initialize)
  have dc: "deck_count (m_inventory (updates ?s frs)) = d"
    by (simp add: updates_config initialize_fields)
  have 1: "\<forall>i < 52. cards_seen (m_inventory (updates ?s frs)) ! i \<le> 1"
    using oe by (simp add: once_each_def)
  have 2: "total_cards_seen (m_inventory (updates ?s frs)) \<le> 52"
    using once_each_bounds(1) [OF oe] .
  have 3: "\<not> isImpossible (m_inventory (updates ?s frs))"
    using a by (intro once_each_possible oe) (simp_all add: dc)
  have 4: "getLastIndicator (updates ?s frs) \<noteq> CardDepletion"
    if "getLastIndicator s0 \<noteq> CardDepletion"
    unfolding getLastIndicator_def
    using a that
    by (intro no_depletion_updates once_each_initialize)
       (simp_all add: initialize_fields getLastIndicator_def)
  show "(\<forall>i < 52. cards_seen (m_inventory (updates ?s frs)) ! i \<le> 1)
     \<and> total_cards_seen (m_inventory (updates ?s frs)) \<le> 52
     \<and> \<not> isImpossible (m_inventory (updates ?s frs))
     \<and> (getLastIndicator s0 \<noteq> CardDepletion \<longrightarrow>
          getLastIndicator (updates ?s frs) \<noteq> CardDepletion)"
    using 1 2 3 4 by blast
qed

lemma process_detection_unfold:
  "process_detection s n =
     (if n \<notin> session_cards s
      then (checkDuplicateCard n s)
             \<lparr>m_inventory := fst (CardInventory_addCard (m_inventory s) n),
              session_cards := insert n (session_cards s),
              m_recentCards := push_recent (m_recentCards s) n\<rparr>
      else (checkDuplicateCard n s)\<lparr>m_recentCards := push_recent (m_recentCards s) n\<rparr>)"
  by (simp add: process_detection_def Let_def checkDuplicateCard_def triggerShuffleDetection_def)

lemma checkCardDisappearance_unfold:
  "checkCardDisappearance s =
     (if m_consecutiveEmptyFrames s \<ge> EMPTY_FRAMES_THRESHOLD then
        (if total_cards_seen (m_inventory s) \<ge> int_to_u32 (m_minCardsBeforeReset s)
         then (triggerShuffleDetection AllCardsGone s)\<lparr>m_consecutiveEmptyFrames := 0\<rparr>
         else s\<lparr>m_consecutiveEmptyFrames := 0\<rparr>)
      else s)"
  by (simp add: checkCardDisappearance_def Let_def)

lemma isImpossible_unfold:
  "isImpossible iv =
     (list_ex (\<lambda>count. count > deck_count iv) (cards_seen iv)
      \<or> total_cards_seen iv > u32 (deck_count iv * 52))"
  by (simp add: isImpossible_def Let_def)

lemma getPenetration_unfold:
  "getPenetration iv =
     (if u32 (deck_count iv * 52) = 0 then 0
      else real (total_cards_seen iv) / real (u32 (deck_count iv * 52)))"
  by (simp add: getPenetration_def Let_def)

lemma push_recent_unfold:
  "push_recent rc n = (if length (rc @ [n]) > MAX_RECENT_CARDS then tl (rc @ [n]) else rc @ [n])"
  by (simp add: push_recent_def Let_def)

lemma replicate_52: "replicate 52 (0::nat) = [0, 0, 0, 0, 0, 0, 0, 0, 0, 0, 0, 0, 0,
      0, 0, 0, 0, 0, 0, 0, 0, 0, 0, 0, 0, 0,
      0, 0, 0, 0, 0, 0, 0, 0, 0, 0, 0, 0, 0,
      0, 0, 0, 0, 0, 0, 0, 0, 0, 0, 0, 0, 0]"
  by (simp add: eval_nat_numeral)

lemma list_update_Cons_numeral: "(x # xs)[numeral v := y] = x # xs[numeral v - 1 := y]"
  by (simp add: numeral_eq_Suc)

lemmas detector_eval = update_unfold process_detection_unfold checkDuplicateCard_def
  checkCardDepletion_def checkPenetration_def checkInactivity_def checkCardDisappearance_unfold
  checkImpossibleSequence_def triggerShuffleDetection_def isImpossible_unfold getPenetration_unfold
  hasReachedPenetrationLimit_def CardInventory_addCard_def CardInventory_reset_def push_recent_unfold
  MAX_RECENT_CARDS_def EMPTY_FRAMES_THRESHOLD_def getTimeSinceLastCard_def duration_seconds_def
  frame_of_def ShuffleDetector_initialize_def ShuffleDetector_ctor_def u32_def u8_def int_to_u32_def
  replicate_52 list_update_Cons_numeral

lemma after_38_cards_state:
  "\<not> m_shuffleDetected after_38_cards
   \<and> m_lastIndicator after_38_cards = NoneInd
   \<and> m_recentCards after_38_cards = [0, 1, 2, 3, 4, 5, 6, 7, 8, 9, 10, 11, 12, 13, 14, 15, 16, 17, 18,
        19, 20, 21, 22, 23, 24, 25, 26, 27, 28, 29, 30, 31, 32, 33, 34, 35, 36, 37]
   \<and> m_minCardsBeforeReset after_38_cards = 26
   \<and> m_penetrationLimit after_38_cards = 3 / 4"
  by (simp add: after_38_cards_def one_deck_detector_def detector_eval)

lemma after_38_cards_next:
  "m_shuffleDetected (ShuffleDetector_update after_38_cards (frame_of 0 [38, 0]))
   \<and> m_lastIndicator (ShuffleDetector_update after_38_cards (frame_of 0 [38, 0])) = DuplicateCard
   \<and> total_cards_seen (m_inventory (ShuffleDetector_update after_38_cards (frame_of 0 [38, 0]))) = 39
   \<and> deck_count (m_inventory (ShuffleDetector_update after_38_cards (frame_of 0 [38, 0]))) = 1
   \<and> \<not> isImpossible (m_inventory (ShuffleDetector_update after_38_cards (frame_of 0 [38, 0])))"
  by (simp add: after_38_cards_def one_deck_detector_def detector_eval)

lemma after_38_cards_dup:
  "dup_in_frame (m_recentCards after_38_cards) (map card_id (detections (frame_of 0 [38, 0])))"
  by (simp add: after_38_cards_state frame_of_def push_recent_unfold MAX_RECENT_CARDS_def)
text \<open>
  The statement at the one-deck detector after 38 cards, for a frame showing a new
  identity and a repeated one, and at the state that frame leaves, for an empty frame.
\<close>

theorem indicator_priority_witness:
  "\<not> isShuffleDetected after_38_cards
   \<and> getLastIndicator (ShuffleDetector_update after_38_cards (frame_of 0 [38, 0])) = DuplicateCard
   \<and> isShuffleDetected (ShuffleDetector_update after_38_cards (frame_of 0 [38, 0]))
   \<and> getLastIndicator
        (ShuffleDetector_update (ShuffleDetector_update after_38_cards (frame_of 0 [38, 0]))
           (frame_of 1 []))
       = DuplicateCard"
proof -
  let ?s = "ShuffleDetector_update after_38_cards (frame_of 0 [38, 0])"
  have n: "\<not> isShuffleDetected after_38_cards"
    by (simp add: isShuffleDetected_def after_38_cards_state)
  have d: "isShuffleDetected ?s" and i: "getLastIndicator ?s = DuplicateCard"
    by (simp_all add: isShuffleDetected_def getLastIndicator_def after_38_cards_next)
  have "getLastIndicator ?s = DuplicateCard"
    using indicator_priority [of after_38_cards "frame_of 0 [38, 0]"] n after_38_cards_dup
    by simp
  moreover have "getLastIndicator (ShuffleDetector_update ?s (frame_of 1 [])) = DuplicateCard"
    using indicator_priority [of ?s "frame_of 1 []"] d i by simp
  ultimately show ?thesis
    using n d by simp
qed

text \<open>
  In that frame the conditions of PenetrationReached (39 of 52 cards, at least 26) and of
  DuplicateCard both hold, the condition of CardDepletion does not, and the indicator
  left is DuplicateCard.
\<close>

theorem indicator_priority_counterexample:
  "\<not> isShuffleDetected after_38_cards
   \<and> \<not> isImpossible (m_inventory (ShuffleDetector_update after_38_cards (frame_of 0 [38, 0])))
   \<and> total_cards_seen (m_inventory (ShuffleDetector_update after_38_cards (frame_of 0 [38, 0])))
        \<ge> int_to_u32 (m_minCardsBeforeReset after_38_cards)
   \<and> hasReachedPenetrationLimit
        (m_inventory (ShuffleDetector_update after_38_cards (frame_of 0 [38, 0])))
        (m_penetrationLimit after_38_cards)
   \<and> dup_in_frame (m_recentCards after_38_cards) (map card_id (detections (frame_of 0 [38, 0])))
   \<and> getLastIndicator (ShuffleDetector_update after_38_cards (frame_of 0 [38, 0])) = DuplicateCard
   \<and> getLastIndicator (ShuffleDetector_update after_38_cards (frame_of 0 [38, 0]))
        \<noteq> PenetrationReached"
  using after_38_cards_dup
  by (simp add: isShuffleDetected_def getLastIndicator_def after_38_cards_state after_38_cards_next
      hasReachedPenetrationLimit_def getPenetration_unfold u32_def int_to_u32_def)

lemma after_ten_cards_state:
  "\<not> m_shuffleDetected after_ten_cards
   \<and> m_recentCards after_ten_cards = [0, 1, 2, 3, 4, 5, 6, 7, 8, 9]"
  by (simp add: after_ten_cards_def six_deck_detector_def detector_eval)

lemma after_ten_cards_next:
  "\<not> m_shuffleDetected (ShuffleDetector_update after_ten_cards (frame_of 0 [9]))
   \<and> m_lastIndicator (ShuffleDetector_update after_ten_cards (frame_of 0 [9])) = NoneInd
   \<and> m_lastIndicator (ShuffleDetector_update after_ten_cards (frame_of 0 [8])) = DuplicateCard"
  by (simp add: after_ten_cards_def six_deck_detector_def detector_eval)

lemma checkDuplicateCard_short_buffer:
  "length (m_recentCards s) < 10 \<Longrightarrow> checkDuplicateCard n s = s"
  by (simp add: checkDuplicateCard_def)

text \<open>
  C6 (the code at the failing input). After the ten identities 0 to 9 the buffer holds
  ten entries, the last of them 9. Identity 9 confirmed again does not fire
  DuplicateCard: no shuffle is detected and the indicator stays None. (Identity 8
  confirmed again does fire it.)
\<close>

theorem duplicate_of_latest_entry_missed:
  "length (m_recentCards after_ten_cards) = 10
   \<and> 9 \<in> set (m_recentCards after_ten_cards)
   \<and> \<not> isShuffleDetected after_ten_cards
   \<and> \<not> isShuffleDetected (ShuffleDetector_update after_ten_cards (frame_of 0 [9]))
   \<and> getLastIndicator (ShuffleDetector_update after_ten_cards (frame_of 0 [9])) = NoneInd
   \<and> getLastIndicator (ShuffleDetector_update after_ten_cards (frame_of 0 [8])) = DuplicateCard"
  by (simp add: isShuffleDetected_def getLastIndicator_def after_ten_cards_state
      after_ten_cards_next)

text \<open>
  The statement at six decks, for the first 234 cards of a six-deck shoe.
\<close>

theorem inventory_once_per_identity_witness:
  "(1::nat) \<le> 6 \<and> 52 \<le> u32 (6 * 52)
   \<and> getLastIndicator (ShuffleDetector_ctor 0 {}) \<noteq> CardDepletion
   \<and> cards_seen (m_inventory (updates six_deck_detector six_deck_shoe_frames)) ! 0 \<le> 1
   \<and> total_cards_seen (m_inventory (updates six_deck_detector six_deck_shoe_frames)) \<le> 52
   \<and> \<not> isImpossible (m_inventory (updates six_deck_detector six_deck_shoe_frames))
   \<and> getLastIndicator (updates six_deck_detector six_deck_shoe_frames) \<noteq> CardDepletion"
proof -
  have h: "(1::nat) \<le> 6 \<and> 52 \<le> u32 (6 * 52)"
    by (simp add: u32_def)
  have n: "getLastIndicator (ShuffleDetector_ctor 0 {}) \<noteq> CardDepletion"
    by (simp add: getLastIndicator_def ShuffleDetector_ctor_def)
  from inventory_once_per_identity [of 6 "3 / 4" "ShuffleDetector_ctor 0 {}" six_deck_shoe_frames] h n
  show ?thesis
    unfolding six_deck_detector_def by auto
qed

text \<open>
  With 2^30 decks the 32-bit product of the deck count and 52 is 0: the first card seen
  makes \<open>isImpossible\<close> true and fires CardDepletion.
\<close>

theorem inventory_once_per_identity_counterexample:
  "(1::nat) \<le> 1073741824
   \<and> isImpossible (m_inventory (updates huge_shoe_detector [frame_of 0 [0]]))
   \<and> getLastIndicator huge_shoe_detector = NoneInd
   \<and> getLastIndicator (updates huge_shoe_detector [frame_of 0 [0]]) = CardDepletion"
  by (simp add: updates_def getLastIndicator_def huge_shoe_detector_def detector_eval)

lemma six_decks_below_limit:
  assumes oe: "once_each s" and d: "deck_count (m_inventory s) = 6"
  shows "getPenetration (m_inventory s) < 3 / 4"
proof -
  have "total_cards_seen (m_inventory s) \<le> 52"
    using once_each_bounds(1) [OF oe] .
  then have "real (total_cards_seen (m_inventory s)) \<le> 52"
    by simp
  then show ?thesis
    by (simp add: getPenetration_unfold d u32_def)
qed

lemma no_penetration_update:
  assumes oe: "once_each s" and d: "deck_count (m_inventory s) = 6"
    and l: "m_penetrationLimit s = 3 / 4" and n: "m_lastIndicator s \<noteq> PenetrationReached"
  shows "m_lastIndicator (ShuffleDetector_update s fr) \<noteq> PenetrationReached"
proof -
  have "getPenetration (m_inventory (ShuffleDetector_update s fr)) < 3 / 4"
    using once_each_update [OF oe, of fr] d
    by (intro six_decks_below_limit) (simp_all add: update_config)
  then have "\<not> hasReachedPenetrationLimit (m_inventory (ShuffleDetector_update s fr))
                (m_penetrationLimit s)"
    by (simp add: hasReachedPenetrationLimit_def l)
  then show ?thesis
    using update_indicator_cases [of s fr] n by auto
qed

lemma no_penetration_updates:
  "once_each s \<Longrightarrow> deck_count (m_inventory s) = 6 \<Longrightarrow> m_penetrationLimit s = 3 / 4 \<Longrightarrow>
   m_lastIndicator s \<noteq> PenetrationReached \<Longrightarrow>
   m_lastIndicator (updates s frs) \<noteq> PenetrationReached"
proof (induction frs arbitrary: s)
  case Nil
  then show ?case by (simp add: updates_def)
next
  case (Cons fr frs)
  have "m_lastIndicator (updates (ShuffleDetector_update s fr) frs) \<noteq> PenetrationReached"
    using Cons.prems
    by (intro Cons.IH once_each_update no_penetration_update) (simp_all add: update_config)
  then show ?case by (simp add: updates_def)
qed

text \<open>
  C2 (the code on the failing input, and on every input). A detector constructed in a
  process with any session set, initialised for six decks at a limit of 75% (minimum 26
  cards), has after any sequence of frames seen at most 52 cards in total, a penetration
  below 75%, and an indicator other than PenetrationReached; so it has after the first
  234 cards of a six-deck shoe, fed one per frame.
\<close>

theorem six_deck_penetration_never_reached:
  "total_cards_seen (m_inventory
      (updates (ShuffleDetector_initialize 6 (3 / 4) (ShuffleDetector_ctor t sc)) frs)) \<le> 52
   \<and> getPenetration (m_inventory
      (updates (ShuffleDetector_initialize 6 (3 / 4) (ShuffleDetector_ctor t sc)) frs)) < 3 / 4
   \<and> getLastIndicator
      (updates (ShuffleDetector_initialize 6 (3 / 4) (ShuffleDetector_ctor t sc)) frs)
       \<noteq> PenetrationReached
   \<and> m_minCardsBeforeReset (ShuffleDetector_initialize 6 (3 / 4) (ShuffleDetector_ctor t sc)) = 26
   \<and> length six_deck_shoe_frames = 234
   \<and> total_cards_seen (m_inventory (updates six_deck_detector six_deck_shoe_frames)) < 234
   \<and> getLastIndicator (updates six_deck_detector six_deck_shoe_frames) \<noteq> PenetrationReached"
proof -
  have gen: "total_cards_seen (m_inventory (updates (ShuffleDetector_initialize 6 (3 / 4) s0) frs')) \<le> 52
      \<and> getPenetration (m_inventory (updates (ShuffleDetector_initialize 6 (3 / 4) s0) frs')) < 3 / 4
      \<and> (m_lastIndicator s0 = NoneInd \<longrightarrow>
           m_lastIndicator (updates (ShuffleDetector_initialize 6 (3 / 4) s0) frs') \<noteq> PenetrationReached)"
    for s0 frs'
  proof -
    let ?s = "ShuffleDetector_initialize 6 (3 / 4) s0"
    have oe: "once_each (updates ?s frs')"
      by (intro once_each_updates once_each_initialize)
    have dc: "deck_count (m_inventory (updates ?s frs')) = 6"
      by (simp add: updates_config initialize_fields)
    have "m_lastIndicator (updates ?s frs') \<noteq> PenetrationReached" if "m_lastIndicator s0 = NoneInd"
      using that
      by (intro no_penetration_updates once_each_initialize) (simp_all add: initialize_fields)
    then show ?thesis
      using once_each_bounds(1) [OF oe] six_decks_below_limit [OF oe dc] by blast
  qed
  have c: "m_lastIndicator (ShuffleDetector_ctor t' sc') = NoneInd" for t' sc'
    by (simp add: ShuffleDetector_ctor_def)
  have m: "m_minCardsBeforeReset (ShuffleDetector_initialize 6 (3 / 4) (ShuffleDetector_ctor t sc)) = 26"
    by (simp add: ShuffleDetector_initialize_def ShuffleDetector_ctor_def)
  have len: "length six_deck_shoe_frames = 234"
    by (simp add: six_deck_shoe_frames_def)
  show ?thesis
    using gen [of "ShuffleDetector_ctor t sc" frs] gen [of "ShuffleDetector_ctor 0 {}" six_deck_shoe_frames]
      c m len
    unfolding six_deck_detector_def getLastIndicator_def by force
qed

end
